theory Spec2Isabelle
  imports Complex_Main "HOL-Library.Log_Nat"
begin

section \<open>Numbers\<close>

text \<open>
  The two handlers (the selectable variant \<^verbatim>\<open>functions/api/result.js\<close> and the
  fixed variant, whose only transform is \<^verbatim>\<open>-log(1-R^2)\<close>) compute with JavaScript
  numbers, the doubles of IEEE 754 (binary64). A number is a finite value, one of the
  two infinities, or \<open>NaN\<close>. The two zeros are not told apart: the only divisors of
  the source that can be zero are the products \<^verbatim>\<open>xi * xi\<close>, which are never the
  negative zero (the determinant and \<^verbatim>\<open>ssTot\<close> are tested before they divide, and
  \<open>n\<close> is positive where it divides), and the sign of a zero is not observable in a
  response.
\<close>

datatype number = Fin real | PosInf | NegInf | NaN

text \<open>
  Rounding to the nearest double, a tie going to the even significand. \<open>exponent x\<close> is
  the integer \<open>e\<close> with \<open>2\<^sup>e \<le> |x| < 2\<^sup>e\<^sup>+\<^sup>1\<close>; the doubles near \<open>x\<close> are the multiples
  of \<open>2\<^sup>e\<^sup>-\<^sup>5\<^sup>2\<close>, or of \<open>2\<^sup>-\<^sup>1\<^sup>0\<^sup>7\<^sup>4\<close> below the normal range, and a result of magnitude
  \<open>2\<^sup>1\<^sup>0\<^sup>2\<^sup>4\<close> is an infinity.
\<close>

definition exponent :: "real \<Rightarrow> int" where
  "exponent x =
    (if 1 \<le> \<bar>x\<bar> then bitlen \<lfloor>\<bar>x\<bar>\<rfloor> - 1 else - bitlen (\<lceil>1 / \<bar>x\<bar>\<rceil> - 1))"

definition round_even :: "real \<Rightarrow> int" where
  "round_even t =
    (let f = \<lfloor>t\<rfloor>; d = t - of_int f
     in if d < 1 / 2 then f else if 1 / 2 < d then f + 1 else if even f then f else f + 1)"

definition binary64 :: "real \<Rightarrow> number" where
  "binary64 x =
    (if x = 0 then Fin 0
     else
       let q = 2 powi (max (exponent x) (- 1022) - 52);
           y = of_int (round_even (x / q)) * q
       in if 2 ^ 1024 \<le> \<bar>y\<bar> then (if 0 < x then PosInf else NegInf) else Fin y)"

text \<open>
  The arithmetic of the source, with the rounding \<open>rd\<close> of a finite result as a
  parameter: \<open>binary64\<close> gives the operations of JavaScript, and \<open>Fin\<close> (no rounding)
  gives the same formulas in exact arithmetic.
\<close>

fun fneg :: "number \<Rightarrow> number" where
  "fneg (Fin a) = Fin (- a)"
| "fneg PosInf = NegInf"
| "fneg NegInf = PosInf"
| "fneg NaN = NaN"

fun fadd :: "(real \<Rightarrow> number) \<Rightarrow> number \<Rightarrow> number \<Rightarrow> number" where
  "fadd rd (Fin a) (Fin b) = rd (a + b)"
| "fadd rd NaN b = NaN"
| "fadd rd a NaN = NaN"
| "fadd rd PosInf NegInf = NaN"
| "fadd rd NegInf PosInf = NaN"
| "fadd rd PosInf b = PosInf"
| "fadd rd NegInf b = NegInf"
| "fadd rd a PosInf = PosInf"
| "fadd rd a NegInf = NegInf"

definition fsub :: "(real \<Rightarrow> number) \<Rightarrow> number \<Rightarrow> number \<Rightarrow> number" where
  "fsub rd a b = fadd rd a (fneg b)"

fun sign :: "number \<Rightarrow> int" where
  "sign (Fin a) = (if 0 < a then 1 else if a < 0 then - 1 else 0)"
| "sign PosInf = 1"
| "sign NegInf = - 1"
| "sign NaN = 0"

definition infinity :: "int \<Rightarrow> number" where
  "infinity s = (if 0 < s then PosInf else NegInf)"

fun fmul :: "(real \<Rightarrow> number) \<Rightarrow> number \<Rightarrow> number \<Rightarrow> number" where
  "fmul rd (Fin a) (Fin b) = rd (a * b)"
| "fmul rd NaN b = NaN"
| "fmul rd a NaN = NaN"
| "fmul rd a b = (if sign a * sign b = 0 then NaN else infinity (sign a * sign b))"

fun fdiv :: "(real \<Rightarrow> number) \<Rightarrow> number \<Rightarrow> number \<Rightarrow> number" where
  "fdiv rd (Fin a) (Fin b) =
     (if b = 0 then (if a = 0 then NaN else infinity (sign (Fin a))) else rd (a / b))"
| "fdiv rd NaN b = NaN"
| "fdiv rd a NaN = NaN"
| "fdiv rd (Fin a) b = Fin 0"
| "fdiv rd a (Fin b) = infinity (sign a * (if b < 0 then - 1 else 1))"
| "fdiv rd a b = NaN"

fun fabs :: "number \<Rightarrow> number" where
  "fabs (Fin a) = Fin \<bar>a\<bar>"
| "fabs PosInf = PosInf"
| "fabs NegInf = PosInf"
| "fabs NaN = NaN"

text \<open>\<^verbatim>\<open>a < b\<close>; a comparison with \<open>NaN\<close> is false.\<close>

fun flt :: "number \<Rightarrow> number \<Rightarrow> bool" where
  "flt (Fin a) (Fin b) = (a < b)"
| "flt NaN b = False"
| "flt a NaN = False"
| "flt NegInf b = (b \<noteq> NegInf)"
| "flt a PosInf = (a \<noteq> PosInf)"
| "flt a b = False"

section \<open>Strings and JSON values\<close>

text \<open>
  A JavaScript string is a sequence of UTF-16 code units; \<open>ascii\<close> embeds an ASCII
  literal. A JSON value is what \<^verbatim>\<open>request.json()\<close> produces, a number being held
  as it is written in the body.
\<close>

type_synonym jsstring = "nat list"

definition ascii :: "string \<Rightarrow> jsstring" where
  "ascii s = map of_char s"

datatype json =
    JNull
  | JBool bool
  | JNum real
  | JStr jsstring
  | JArr "json list"
  | JObj "(jsstring \<times> json) list"

datatype exn = TypeError

text \<open>
  \<^verbatim>\<open>row[i]\<close> for \<open>i < 10\<close>, on a value that \<^verbatim>\<open>request.json()\<close> produced: reading a
  property of \<^verbatim>\<open>null\<close> throws, an array or a string is read by position, an object
  by the key \<^verbatim>\<open>"0"\<close>, \<^verbatim>\<open>"1"\<close>, ... (the last binding of a repeated key is the one
  \<^verbatim>\<open>JSON.parse\<close> keeps), and numbers and booleans have no such property. \<open>None\<close> is
  \<^verbatim>\<open>undefined\<close>.
\<close>

fun get_index :: "json \<Rightarrow> nat \<Rightarrow> exn + json option" where
  "get_index JNull i = Inl TypeError"
| "get_index (JArr es) i = Inr (if i < length es then Some (es ! i) else None)"
| "get_index (JStr s) i = Inr (if i < length s then Some (JStr [s ! i]) else None)"
| "get_index (JObj kvs) i = Inr (map_of (rev kvs) [48 + i])"
| "get_index (JBool b) i = Inr None"
| "get_index (JNum r) i = Inr None"

text \<open>
  Converting a value to a string, as \<^verbatim>\<open>parseFloat\<close> does first, can throw: an
  object that has a key \<^verbatim>\<open>toString\<close> of its own (no value of a JSON body is a
  function) has no usable conversion, and an array converts each of its elements
  (\<^verbatim>\<open>null\<close> as the empty string).
\<close>

fun stringifies :: "json \<Rightarrow> bool" where
  "stringifies JNull = True"
| "stringifies (JBool b) = True"
| "stringifies (JNum r) = True"
| "stringifies (JStr s) = True"
| "stringifies (JArr es) = list_all stringifies es"
| "stringifies (JObj kvs) = (map_of kvs (ascii ''toString'') = None)"

text \<open>
  \<^verbatim>\<open>parseFloat(v)\<close> then reads the longest numeric prefix of the string. How a
  string is read is the builtin's business and is the parameter \<open>pf\<close>. A number of the
  body is the double nearest to what is written, and prints to a string that reads
  back as that double; \<^verbatim>\<open>null\<close>, \<^verbatim>\<open>undefined\<close>, booleans and objects print to
  words that are no number; an array prints its elements separated by commas, and a
  comma ends every numeric prefix, so that only its first element can be read.
\<close>

fun read_number :: "(jsstring \<Rightarrow> number) \<Rightarrow> json \<Rightarrow> number" where
  "read_number pf JNull = NaN"
| "read_number pf (JBool b) = NaN"
| "read_number pf (JNum r) = binary64 r"
| "read_number pf (JStr s) = pf s"
| "read_number pf (JArr []) = NaN"
| "read_number pf (JArr (e # es)) = read_number pf e"
| "read_number pf (JObj kvs) = NaN"

definition parseFloat_json :: "(jsstring \<Rightarrow> number) \<Rightarrow> json \<Rightarrow> exn + number" where
  "parseFloat_json pf j = (if stringifies j then Inr (read_number pf j) else Inl TypeError)"

definition parseFloat :: "(jsstring \<Rightarrow> number) \<Rightarrow> json option \<Rightarrow> exn + number" where
  "parseFloat pf v = (case v of None \<Rightarrow> Inr NaN | Some j \<Rightarrow> parseFloat_json pf j)"

section \<open>The fitter\<close>

text \<open>
  \<^verbatim>\<open>fit(x, y)\<close> of \<^verbatim>\<open>functions/api/result.js\<close>: least squares for \<open>y = b/x\<^sup>2 + a\<close>
  in the variable \<open>u = 1/x\<^sup>2\<close>, returning \<open>R\<^sup>2\<close>, or \<^verbatim>\<open>null\<close> (\<open>None\<close>) when the
  determinant of the normal equations is below \<open>10\<^sup>-\<^sup>2\<^sup>0\<close> in absolute value. Both
  loops run over \<open>i = 0, ..., n - 1\<close> with \<open>n\<close> the length of \<open>x\<close>; \<^verbatim>\<open>y[i]\<close> beyond
  the end of \<open>y\<close> is \<^verbatim>\<open>undefined\<close>, which is \<open>NaN\<close> in the sums. Every operation
  rounds its result; \<^verbatim>\<open>v ** 2\<close> is read as the rounded product of \<open>v\<close> with itself
  (the power of an engine is not required to be correctly rounded, and may differ from
  it in the last place), and the literal \<^verbatim>\<open>1e-20\<close> is the rounded \<open>10\<^sup>-\<^sup>2\<^sup>0\<close>. The
  rounding \<open>rd\<close> is a parameter: \<^verbatim>\<open>fit\<close> is \<open>fit_with binary64\<close>, and \<open>fit_with Fin\<close>
  is the same code in exact arithmetic.
\<close>

definition nth_number :: "number list \<Rightarrow> nat \<Rightarrow> number" where
  "nth_number y i = (if i < length y then y ! i else NaN)"

record sums =
  sumU :: number
  sumU2 :: number
  sumY :: number
  sumUY :: number

record squares =
  ssRes :: number
  ssTot :: number

definition fit_with :: "(real \<Rightarrow> number) \<Rightarrow> number list \<Rightarrow> number list \<Rightarrow> number option" where
  "fit_with rd x y =
    (let n = length x;
         u = map (\<lambda>xi. fdiv rd (Fin 1) (fmul rd xi xi)) x;
         s = fold (\<lambda>i s. \<lparr>sumU = fadd rd (sumU s) (u ! i),
                          sumU2 = fadd rd (sumU2 s) (fmul rd (u ! i) (u ! i)),
                          sumY = fadd rd (sumY s) (nth_number y i),
                          sumUY = fadd rd (sumUY s) (fmul rd (u ! i) (nth_number y i))\<rparr>)
               [0..<n] \<lparr>sumU = Fin 0, sumU2 = Fin 0, sumY = Fin 0, sumUY = Fin 0\<rparr>;
         det = fsub rd (fmul rd (Fin (real n)) (sumU2 s)) (fmul rd (sumU s) (sumU s))
     in if flt (fabs det) (rd (1 / 10 ^ 20)) then None
        else
          let a = fdiv rd (fsub rd (fmul rd (sumY s) (sumU2 s)) (fmul rd (sumU s) (sumUY s))) det;
              b = fdiv rd (fsub rd (fmul rd (Fin (real n)) (sumUY s)) (fmul rd (sumU s) (sumY s))) det;
              yPred = map (\<lambda>xi. fadd rd (fdiv rd b (fmul rd xi xi)) a) x;
              yMean = fdiv rd (sumY s) (Fin (real n));
              q = fold (\<lambda>i q.
                      \<lparr>ssRes = fadd rd (ssRes q)
                         (fmul rd (fsub rd (nth_number y i) (yPred ! i))
                                  (fsub rd (nth_number y i) (yPred ! i))),
                       ssTot = fadd rd (ssTot q)
                         (fmul rd (fsub rd (nth_number y i) yMean)
                                  (fsub rd (nth_number y i) yMean))\<rparr>)
                    [0..<n] \<lparr>ssRes = Fin 0, ssTot = Fin 0\<rparr>;
              r2 = (if flt (Fin 0) (ssTot q) then fsub rd (Fin 1) (fdiv rd (ssRes q) (ssTot q))
                    else Fin 0)
          in Some r2)"

definition fit :: "number list \<Rightarrow> number list \<Rightarrow> number option" where
  "fit = fit_with binary64"

text \<open>The copy of \<^verbatim>\<open>fit\<close> in the fixed variant.\<close>

definition fit_fixed_with ::
  "(real \<Rightarrow> number) \<Rightarrow> number list \<Rightarrow> number list \<Rightarrow> number option" where
  "fit_fixed_with rd x y =
    (let n = length x;
         u = map (\<lambda>xi. fdiv rd (Fin 1) (fmul rd xi xi)) x;
         s = fold (\<lambda>i s. \<lparr>sumU = fadd rd (sumU s) (u ! i),
                          sumU2 = fadd rd (sumU2 s) (fmul rd (u ! i) (u ! i)),
                          sumY = fadd rd (sumY s) (nth_number y i),
                          sumUY = fadd rd (sumUY s) (fmul rd (u ! i) (nth_number y i))\<rparr>)
               [0..<n] \<lparr>sumU = Fin 0, sumU2 = Fin 0, sumY = Fin 0, sumUY = Fin 0\<rparr>;
         det = fsub rd (fmul rd (Fin (real n)) (sumU2 s)) (fmul rd (sumU s) (sumU s))
     in if flt (fabs det) (rd (1 / 10 ^ 20)) then None
        else
          let a = fdiv rd (fsub rd (fmul rd (sumY s) (sumU2 s)) (fmul rd (sumU s) (sumUY s))) det;
              b = fdiv rd (fsub rd (fmul rd (Fin (real n)) (sumUY s)) (fmul rd (sumU s) (sumY s))) det;
              yPred = map (\<lambda>xi. fadd rd (fdiv rd b (fmul rd xi xi)) a) x;
              yMean = fdiv rd (sumY s) (Fin (real n));
              q = fold (\<lambda>i q.
                      \<lparr>ssRes = fadd rd (ssRes q)
                         (fmul rd (fsub rd (nth_number y i) (yPred ! i))
                                  (fsub rd (nth_number y i) (yPred ! i))),
                       ssTot = fadd rd (ssTot q)
                         (fmul rd (fsub rd (nth_number y i) yMean)
                                  (fsub rd (nth_number y i) yMean))\<rparr>)
                    [0..<n] \<lparr>ssRes = Fin 0, ssTot = Fin 0\<rparr>;
              r2 = (if flt (Fin 0) (ssTot q) then fsub rd (Fin 1) (fdiv rd (ssRes q) (ssTot q))
                    else Fin 0)
          in Some r2)"

definition fit_fixed :: "number list \<Rightarrow> number list \<Rightarrow> number option" where
  "fit_fixed = fit_fixed_with binary64"

text \<open>
  The same quantities as the specification writes them (its section 4.1), over the
  reals, for the comparison with \<^verbatim>\<open>fit\<close> in exact arithmetic: \<open>u[i] = 1/x[i]\<^sup>2\<close>, the
  four sums, the determinant \<open>n Su2 - Su\<^sup>2\<close>, the coefficients \<open>a\<close> and \<open>b\<close>, the two
  sums of squares and \<open>R\<^sup>2\<close>, with no clamp.
\<close>

definition spec_u :: "real list \<Rightarrow> nat \<Rightarrow> real" where
  "spec_u x i = 1 / (x ! i) ^ 2"

definition spec_Su :: "real list \<Rightarrow> real" where
  "spec_Su x = (\<Sum>i<length x. spec_u x i)"

definition spec_Su2 :: "real list \<Rightarrow> real" where
  "spec_Su2 x = (\<Sum>i<length x. (spec_u x i) ^ 2)"

definition spec_Sy :: "real list \<Rightarrow> real list \<Rightarrow> real" where
  "spec_Sy x y = (\<Sum>i<length x. y ! i)"

definition spec_Suy :: "real list \<Rightarrow> real list \<Rightarrow> real" where
  "spec_Suy x y = (\<Sum>i<length x. spec_u x i * y ! i)"

definition spec_det :: "real list \<Rightarrow> real" where
  "spec_det x = real (length x) * spec_Su2 x - (spec_Su x) ^ 2"

definition spec_a :: "real list \<Rightarrow> real list \<Rightarrow> real" where
  "spec_a x y = (spec_Sy x y * spec_Su2 x - spec_Su x * spec_Suy x y) / spec_det x"

definition spec_b :: "real list \<Rightarrow> real list \<Rightarrow> real" where
  "spec_b x y = (real (length x) * spec_Suy x y - spec_Su x * spec_Sy x y) / spec_det x"

definition spec_SSres :: "real list \<Rightarrow> real list \<Rightarrow> real" where
  "spec_SSres x y = (\<Sum>i<length x. (y ! i - (spec_b x y / (x ! i) ^ 2 + spec_a x y)) ^ 2)"

definition spec_SStot :: "real list \<Rightarrow> real list \<Rightarrow> real" where
  "spec_SStot x y = (\<Sum>i<length x. (y ! i - spec_Sy x y / real (length x)) ^ 2)"

definition spec_fit :: "real list \<Rightarrow> real list \<Rightarrow> real option" where
  "spec_fit x y =
    (if \<bar>spec_det x\<bar> < 1 / 10 ^ 20 then None
     else Some (if spec_SStot x y > 0 then 1 - spec_SSres x y / spec_SStot x y else 0))"

section \<open>The transforms\<close>

text \<open>
  The fifteen entries of the table \<^verbatim>\<open>TRANSFORMS\<close>, in the order of the source, under
  the names the specification gives them.
\<close>

datatype transform_name =
    ReciprocalComplement
  | ExpReciprocalComplement
  | NegLogComplement
  | InverseSqrtComplement
  | TangentHalfPi
  | ExpDecayScaled
  | InverseCubeComplement
  | Log1p
  | ExpClampedLow
  | Sqrt1p
  | Square
  | ArctanNormalized
  | SaturatingRatio
  | Sinh
  | ExpNegative

text \<open>
  The closure stored under each name. \<^verbatim>\<open>v || 0\<close> is \<open>0\<close> when \<open>v\<close> is \<open>0\<close> (or
  \<open>NaN\<close>) and \<open>v\<close> otherwise.
\<close>

fun TRANSFORMS :: "transform_name \<Rightarrow> real \<Rightarrow> real" where
  "TRANSFORMS ReciprocalComplement r2 =
     (if r2 \<ge> 0.999 then 10 ^ 10 else 1 / (1 - max 0 (min 0.999 r2)))"
| "TRANSFORMS ExpReciprocalComplement r2 =
     (if r2 \<ge> 0.999 then 10 ^ 100 else exp (1 / (1 - max 0 (min 0.999 r2))))"
| "TRANSFORMS NegLogComplement r2 =
     - ln (max (1 / 10 ^ 10) (1 - max 0 (min 0.9999 r2)))"
| "TRANSFORMS InverseSqrtComplement r2 =
     (if r2 \<ge> 0.999 then 10 ^ 10
      else 1 / sqrt (max (1 / 10 ^ 10) (1 - max 0 (min 0.999 r2))))"
| "TRANSFORMS TangentHalfPi r2 = tan (pi * max 0 (min 0.999 r2) / 2)"
| "TRANSFORMS ExpDecayScaled r2 = exp (10 * (max 0 r2 - 1))"
| "TRANSFORMS InverseCubeComplement r2 =
     (if r2 \<ge> 0.999 then 10 ^ 30
      else 1 / (max (1 / 10 ^ 10) (1 - max 0 (min 0.999 r2))) ^ 3)"
| "TRANSFORMS Log1p r2 = ln (1 + max 0 r2)"
| "TRANSFORMS ExpClampedLow r2 = exp (max (- 10) r2)"
| "TRANSFORMS Sqrt1p r2 = sqrt (1 + max 0 r2)"
| "TRANSFORMS Square r2 = (max 0 r2) ^ 2"
| "TRANSFORMS ArctanNormalized r2 = arctan (max 0 r2) * 2 / pi"
| "TRANSFORMS SaturatingRatio r2 =
     (let v = max 0 r2 / (1 + max 0 r2) in if v = 0 then 0 else v)"
| "TRANSFORMS Sinh r2 = sinh (max 0 r2)"
| "TRANSFORMS ExpNegative r2 = exp (- max 0 r2)"

text \<open>\<^verbatim>\<open>transform(r2)\<close> of the fixed variant.\<close>

definition transform :: "real \<Rightarrow> real" where
  "transform r2 = - ln (max (1 / 10 ^ 10) (1 - max 0 (min 0.9999 r2)))"

text \<open>
  The transforms on a number. A finite argument gives the value of the formula, an
  infinity where the value is beyond the doubles (magnitude \<open>2\<^sup>1\<^sup>0\<^sup>2\<^sup>4\<close> or more); the
  value of a formula is held exactly, the last-place rounding of \<^verbatim>\<open>Math.exp\<close>,
  \<^verbatim>\<open>Math.log\<close> and the other library functions being left out. \<open>NaN\<close>
  fails every comparison and passes through \<^verbatim>\<open>Math.max\<close> and \<^verbatim>\<open>Math.min\<close>, so that
  every entry returns \<open>NaN\<close> but the one that ends in \<^verbatim>\<open>|| 0\<close>. At \<open>-\<infinity>\<close> the
  first \<^verbatim>\<open>Math.max\<close> returns its bound (\<open>0\<close>, or \<open>-10\<close>), as it does at \<open>-10\<close>. At
  \<open>+\<infinity>\<close> the entries with a ceiling behave as at \<open>1\<close>, and the others return the value
  of their formula there.
\<close>

definition to_number :: "real \<Rightarrow> number" where
  "to_number v = (if \<bar>v\<bar> < 2 ^ 1024 then Fin v else if 0 < v then PosInf else NegInf)"

fun TRANSFORMS_at_infinity :: "transform_name \<Rightarrow> number" where
  "TRANSFORMS_at_infinity ReciprocalComplement = to_number (TRANSFORMS ReciprocalComplement 1)"
| "TRANSFORMS_at_infinity ExpReciprocalComplement =
     to_number (TRANSFORMS ExpReciprocalComplement 1)"
| "TRANSFORMS_at_infinity NegLogComplement = to_number (TRANSFORMS NegLogComplement 1)"
| "TRANSFORMS_at_infinity InverseSqrtComplement = to_number (TRANSFORMS InverseSqrtComplement 1)"
| "TRANSFORMS_at_infinity TangentHalfPi = to_number (TRANSFORMS TangentHalfPi 1)"
| "TRANSFORMS_at_infinity ExpDecayScaled = PosInf"
| "TRANSFORMS_at_infinity InverseCubeComplement = to_number (TRANSFORMS InverseCubeComplement 1)"
| "TRANSFORMS_at_infinity Log1p = PosInf"
| "TRANSFORMS_at_infinity ExpClampedLow = PosInf"
| "TRANSFORMS_at_infinity Sqrt1p = PosInf"
| "TRANSFORMS_at_infinity Square = PosInf"
| "TRANSFORMS_at_infinity ArctanNormalized = Fin 1"
| "TRANSFORMS_at_infinity SaturatingRatio = Fin 0"
| "TRANSFORMS_at_infinity Sinh = PosInf"
| "TRANSFORMS_at_infinity ExpNegative = Fin 0"

fun TRANSFORMS_number :: "transform_name \<Rightarrow> number \<Rightarrow> number" where
  "TRANSFORMS_number t (Fin r2) = to_number (TRANSFORMS t r2)"
| "TRANSFORMS_number t NaN = (if t = SaturatingRatio then Fin 0 else NaN)"
| "TRANSFORMS_number t NegInf = to_number (TRANSFORMS t (- 10))"
| "TRANSFORMS_number t PosInf = TRANSFORMS_at_infinity t"

fun transform_number :: "number \<Rightarrow> number" where
  "transform_number (Fin r2) = to_number (transform r2)"
| "transform_number NaN = NaN"
| "transform_number NegInf = to_number (transform (- 10))"
| "transform_number PosInf = to_number (transform 1)"

text \<open>
  The keys of the table, as the source spells them. The code units beyond ASCII are
  \<open>0xB2\<close> (superscript two), \<open>0x2605\<close> (black star), \<open>0x221A\<close> (square root),
  \<open>0x3C0\<close> (pi), \<open>0xB7\<close> (middle dot), \<open>0x207B\<close> (superscript minus), \<open>0xB3\<close>
  (superscript three) and \<open>0xD7\<close> (multiplication sign).
\<close>

definition TRANSFORMS_keys :: "(jsstring \<times> transform_name) list" where
  "TRANSFORMS_keys =
    [(ascii ''1/(1-R'' @ [0xB2] @ ascii '') '' @ [0x2605], ReciprocalComplement),
     (ascii ''exp(1/(1-R'' @ [0xB2] @ ascii '')) '' @ [0x2605], ExpReciprocalComplement),
     (ascii ''-log(1-R'' @ [0xB2] @ ascii '') '' @ [0x2605], NegLogComplement),
     (ascii ''1/'' @ [0x221A] @ ascii ''(1-R'' @ [0xB2] @ ascii '') '' @ [0x2605],
        InverseSqrtComplement),
     (ascii ''tan('' @ [0x3C0, 0xB7] @ ascii ''R'' @ [0xB2] @ ascii ''/2) '' @ [0x2605],
        TangentHalfPi),
     (ascii ''exp(10'' @ [0xB7] @ ascii ''(R'' @ [0xB2] @ ascii ''-1)) '' @ [0x2605],
        ExpDecayScaled),
     (ascii ''(1-R'' @ [0xB2] @ ascii '')'' @ [0x207B, 0xB3] @ ascii '' '' @ [0x2605],
        InverseCubeComplement),
     (ascii ''log(1 + R'' @ [0xB2] @ ascii '')'', Log1p),
     (ascii ''exp(R'' @ [0xB2] @ ascii '')'', ExpClampedLow),
     ([0x221A] @ ascii ''(1 + R'' @ [0xB2] @ ascii '')'', Sqrt1p),
     (ascii ''R'' @ [0xB2, 0xB2], Square),
     (ascii ''arctan(R'' @ [0xB2] @ ascii '')'' @ [0xD7] @ ascii ''2/'' @ [0x3C0],
        ArctanNormalized),
     (ascii ''R'' @ [0xB2] @ ascii ''/(1+R'' @ [0xB2] @ ascii '')'', SaturatingRatio),
     (ascii ''sinh(R'' @ [0xB2] @ ascii '')'', Sinh),
     (ascii ''exp(-R'' @ [0xB2] @ ascii '')'', ExpNegative)]"

text \<open>
  \<^verbatim>\<open>TRANSFORMS\<close> is an object literal, so \<^verbatim>\<open>TRANSFORMS[transformKey]\<close> finds the
  table's own entries and, for any other key, what the object inherits from
  \<^verbatim>\<open>Object.prototype\<close>: its methods are functions, \<^verbatim>\<open>__proto__\<close> reads as the
  prototype itself (an object), and every other key is \<^verbatim>\<open>undefined\<close>.
\<close>

datatype object_method =
    Constructor
  | DefineGetter
  | DefineSetter
  | HasOwnProperty
  | LookupGetter
  | LookupSetter
  | IsPrototypeOf
  | PropertyIsEnumerable
  | ToString
  | ValueOf
  | ToLocaleString

definition Object_prototype_keys :: "(jsstring \<times> object_method) list" where
  "Object_prototype_keys =
    [(ascii ''constructor'', Constructor),
     (ascii ''__defineGetter__'', DefineGetter),
     (ascii ''__defineSetter__'', DefineSetter),
     (ascii ''hasOwnProperty'', HasOwnProperty),
     (ascii ''__lookupGetter__'', LookupGetter),
     (ascii ''__lookupSetter__'', LookupSetter),
     (ascii ''isPrototypeOf'', IsPrototypeOf),
     (ascii ''propertyIsEnumerable'', PropertyIsEnumerable),
     (ascii ''toString'', ToString),
     (ascii ''valueOf'', ValueOf),
     (ascii ''toLocaleString'', ToLocaleString)]"

datatype property =
    Undefined
  | PrototypeObject
  | TableEntry transform_name
  | Inherited object_method

definition TRANSFORMS_get :: "jsstring \<Rightarrow> property" where
  "TRANSFORMS_get k =
    (case map_of TRANSFORMS_keys k of
       Some t \<Rightarrow> TableEntry t
     | None \<Rightarrow>
        (case map_of Object_prototype_keys k of
           Some m \<Rightarrow> Inherited m
         | None \<Rightarrow> if k = ascii ''__proto__'' then PrototypeObject else Undefined))"

text \<open>
  What a call \<^verbatim>\<open>forward(r2)\<close> returns. The values a handler can hold in
  \<^verbatim>\<open>mainResult\<close> are a number, a \<^verbatim>\<open>Number\<close> object, a string or a boolean. An
  inherited method is called without a receiver (\<^verbatim>\<open>this\<close> is \<^verbatim>\<open>undefined\<close>):
  \<^verbatim>\<open>Object(r2)\<close> wraps the number, \<^verbatim>\<open>toString\<close> names the missing receiver,
  \<^verbatim>\<open>isPrototypeOf\<close> answers \<^verbatim>\<open>false\<close> for an argument that is no object, and the
  other methods throw when they convert the receiver to an object.
\<close>

datatype js_value =
    Number number
  | NumberObject number
  | String jsstring
  | Boolean bool

fun call_method :: "object_method \<Rightarrow> number \<Rightarrow> exn + js_value" where
  "call_method Constructor r2 = Inr (NumberObject r2)"
| "call_method ToString r2 = Inr (String (ascii ''[object Undefined]''))"
| "call_method IsPrototypeOf r2 = Inr (Boolean False)"
| "call_method DefineGetter r2 = Inl TypeError"
| "call_method DefineSetter r2 = Inl TypeError"
| "call_method HasOwnProperty r2 = Inl TypeError"
| "call_method LookupGetter r2 = Inl TypeError"
| "call_method LookupSetter r2 = Inl TypeError"
| "call_method PropertyIsEnumerable r2 = Inl TypeError"
| "call_method ValueOf r2 = Inl TypeError"
| "call_method ToLocaleString r2 = Inl TypeError"

fun is_function :: "property \<Rightarrow> bool" where
  "is_function (TableEntry t) = True"
| "is_function (Inherited m) = True"
| "is_function PrototypeObject = False"
| "is_function Undefined = False"

fun call :: "property \<Rightarrow> number \<Rightarrow> exn + js_value" where
  "call (TableEntry t) r2 = Inr (Number (TRANSFORMS_number t r2))"
| "call (Inherited m) r2 = call_method m r2"
| "call PrototypeObject r2 = Inl TypeError"
| "call Undefined r2 = Inl TypeError"

section \<open>The request handlers\<close>

text \<open>
  \<^verbatim>\<open>Number(v.toFixed(6))\<close> for a finite \<open>v\<close>: a magnitude of \<open>10\<^sup>2\<^sup>1\<close> or more is
  printed in full, and any other is rounded to the nearest multiple of \<open>10\<^sup>-\<^sup>6\<close>, a
  tie going away from zero. The result is held as that decimal, which is what the
  response prints.
\<close>

definition toFixed6 :: "real \<Rightarrow> real" where
  "toFixed6 v =
    (if \<bar>v\<bar> \<ge> 10 ^ 21 then v
     else sgn v * of_int \<lfloor>\<bar>v\<bar> * 10 ^ 6 + 1 / 2\<rfloor> / 10 ^ 6)"

text \<open>
  \<^verbatim>\<open>typeof mainResult === 'number' && isFinite(mainResult) ?
  Number(mainResult.toFixed(6)) : mainResult\<close>
\<close>

fun round_result :: "js_value \<Rightarrow> js_value" where
  "round_result (Number (Fin v)) = Number (Fin (toFixed6 v))"
| "round_result (Number PosInf) = Number PosInf"
| "round_result (Number NegInf) = Number NegInf"
| "round_result (Number NaN) = Number NaN"
| "round_result (NumberObject v) = NumberObject v"
| "round_result (String s) = String s"
| "round_result (Boolean b) = Boolean b"

text \<open>
  The body of a request after \<^verbatim>\<open>const { rows, transformKey } = body || {}\<close>: each
  field is absent (\<open>None\<close>) or holds a value; \<^verbatim>\<open>transformKey\<close> is modelled where it
  is absent or a string. \<open>json_body\<close> is \<open>None\<close> when \<^verbatim>\<open>request.json()\<close> rejects
  the body.
\<close>

record body =
  rows :: "json option"
  transformKey :: "jsstring option"

record request =
  http_method :: jsstring
  json_body :: "body option"

text \<open>
  The error messages. The fixed variant words them in Latvian; the constructor is the
  same. Every response also carries the content type and three CORS headers, which
  are not modelled.
\<close>

datatype error_message =
    InvalidJSON
  | MissingRows
  | MissingRowsOrTransformKey
  | NeedAtLeast2ValidPoints
  | UnknownTransform
  | FitFailed
  | TransformFailed

datatype payload =
    NoBody
  | Error error_message
  | MainResult js_value

record response =
  status :: nat
  payload :: payload

text \<open>
  The loop over the rows, with the arrays \<open>x\<close> and \<open>y\<close> built so far. A row is kept
  when both entries parse and \<open>xi > 0\<close>. The loop throws where \<^verbatim>\<open>row[0]\<close> or a
  conversion to a string does.
\<close>

fun filter_rows ::
  "(jsstring \<Rightarrow> number) \<Rightarrow> json list \<Rightarrow> number list \<Rightarrow> number list
    \<Rightarrow> exn + number list \<times> number list" where
  "filter_rows pf [] x y = Inr (x, y)"
| "filter_rows pf (row # rs) x y =
    (case get_index row 0 of
       Inl e \<Rightarrow> Inl e
     | Inr r0 \<Rightarrow>
        (case parseFloat pf r0 of
           Inl e \<Rightarrow> Inl e
         | Inr xi \<Rightarrow>
            (case get_index row 1 of
               Inl e \<Rightarrow> Inl e
             | Inr r1 \<Rightarrow>
                (case parseFloat pf r1 of
                   Inl e \<Rightarrow> Inl e
                 | Inr yi \<Rightarrow>
                     if xi \<noteq> NaN \<and> yi \<noteq> NaN \<and> flt (Fin 0) xi
                     then filter_rows pf rs (x @ [xi]) (y @ [yi])
                     else filter_rows pf rs x y))))"

text \<open>
  \<^verbatim>\<open>onRequestPost\<close> of the selectable variant. \<open>Inl\<close> is an exception that leaves
  it. \<^verbatim>\<open>!transformKey\<close> holds of an absent key and of the empty string.
\<close>

definition onRequestPost ::
  "(jsstring \<Rightarrow> number) \<Rightarrow> request \<Rightarrow> exn + response" where
  "onRequestPost pf request =
    (if http_method request = ascii ''OPTIONS'' then Inr \<lparr>status = 204, payload = NoBody\<rparr>
     else case json_body request of
       None \<Rightarrow> Inr \<lparr>status = 400, payload = Error InvalidJSON\<rparr>
     | Some b \<Rightarrow>
        (case (rows b, transformKey b) of
           (Some (JArr rs), Some k) \<Rightarrow>
             if k = []
             then Inr \<lparr>status = 400, payload = Error MissingRowsOrTransformKey\<rparr>
             else
               (case filter_rows pf rs [] [] of
                  Inl e \<Rightarrow> Inl e
                | Inr (x, y) \<Rightarrow>
                   if length x < 2
                   then Inr \<lparr>status = 400, payload = Error NeedAtLeast2ValidPoints\<rparr>
                   else
                     let forward = TRANSFORMS_get k in
                     if \<not> is_function forward
                     then Inr \<lparr>status = 400, payload = Error UnknownTransform\<rparr>
                     else
                       (case fit x y of
                          None \<Rightarrow> Inr \<lparr>status = 422, payload = Error FitFailed\<rparr>
                        | Some r2 \<Rightarrow>
                           (case call forward r2 of
                              Inl e \<Rightarrow>
                                Inr \<lparr>status = 422, payload = Error TransformFailed\<rparr>
                            | Inr mainResult \<Rightarrow>
                                Inr \<lparr>status = 200,
                                     payload = MainResult (round_result mainResult)\<rparr>)))
         | _ \<Rightarrow> Inr \<lparr>status = 400, payload = Error MissingRowsOrTransformKey\<rparr>))"

text \<open>\<^verbatim>\<open>onRequestPost\<close> of the fixed variant.\<close>

definition onRequestPost_fixed ::
  "(jsstring \<Rightarrow> number) \<Rightarrow> request \<Rightarrow> exn + response" where
  "onRequestPost_fixed pf request =
    (if http_method request = ascii ''OPTIONS'' then Inr \<lparr>status = 204, payload = NoBody\<rparr>
     else case json_body request of
       None \<Rightarrow> Inr \<lparr>status = 400, payload = Error InvalidJSON\<rparr>
     | Some b \<Rightarrow>
        (case rows b of
           Some (JArr rs) \<Rightarrow>
             (case filter_rows pf rs [] [] of
                Inl e \<Rightarrow> Inl e
              | Inr (x, y) \<Rightarrow>
                 if length x < 2
                 then Inr \<lparr>status = 400, payload = Error NeedAtLeast2ValidPoints\<rparr>
                 else
                   (case fit_fixed x y of
                      None \<Rightarrow> Inr \<lparr>status = 422, payload = Error FitFailed\<rparr>
                    | Some r2 \<Rightarrow>
                        Inr \<lparr>status = 200,
                             payload = MainResult (round_result (Number (transform_number r2)))\<rparr>))
         | _ \<Rightarrow> Inr \<lparr>status = 400, payload = Error MissingRows\<rparr>))"

text \<open>
  The filter as the specification words it: a row is discarded when either of its two
  entries fails to parse as a number or the parsed \<open>x\<close> is not positive; the
  surviving rows give the points, in their order. \<open>row_entry\<close> is the entry of a row
  that has entries at all (any row but \<^verbatim>\<open>null\<close>), and \<open>spec_parsed\<close> the number it
  parses to, \<open>NaN\<close> where it does not parse.
\<close>

definition row_entry :: "json \<Rightarrow> nat \<Rightarrow> json option" where
  "row_entry row i = (case get_index row i of Inl e \<Rightarrow> None | Inr v \<Rightarrow> v)"

definition spec_parsed :: "(jsstring \<Rightarrow> number) \<Rightarrow> json \<Rightarrow> nat \<Rightarrow> number" where
  "spec_parsed pf row i = (case row_entry row i of None \<Rightarrow> NaN | Some j \<Rightarrow> read_number pf j)"

definition spec_discarded :: "(jsstring \<Rightarrow> number) \<Rightarrow> json \<Rightarrow> bool" where
  "spec_discarded pf row \<longleftrightarrow>
    spec_parsed pf row 0 = NaN \<or> spec_parsed pf row 1 = NaN
    \<or> \<not> flt (Fin 0) (spec_parsed pf row 0)"

definition spec_surviving :: "(jsstring \<Rightarrow> number) \<Rightarrow> json list \<Rightarrow> (number \<times> number) list" where
  "spec_surviving pf rs =
    map (\<lambda>row. (spec_parsed pf row 0, spec_parsed pf row 1))
      (filter (\<lambda>row. \<not> spec_discarded pf row) rs)"

section \<open>Rounding to a double\<close>

lemma exponent_eqI:
  assumes "2 powi e \<le> \<bar>x\<bar>" "\<bar>x\<bar> < 2 powi (e + 1)"
  shows "exponent x = e"
proof (cases "1 \<le> \<bar>x\<bar>")
  case True
  have e0: "0 \<le> e"
  proof (rule ccontr)
    assume "\<not> 0 \<le> e"
    then have "e + 1 \<le> 0" by simp
    then have "(2::real) powi (e + 1) \<le> 2 powi 0" by (intro power_int_increasing) simp_all
    with assms(2) True show False by simp
  qed
  let ?n = "\<lfloor>\<bar>x\<bar>\<rfloor>"
  have pe: "(2::real) powi e = of_int (2 ^ nat e)" "(2::real) powi (e + 1) = of_int (2 ^ nat (e + 1))"
    using e0 by (simp_all add: power_int_def)
  have lo: "2 ^ nat e \<le> ?n" using assms(1) unfolding pe by (simp add: le_floor_iff)
  have hi: "?n < 2 ^ nat (e + 1)"
  proof -
    have "of_int ?n \<le> \<bar>x\<bar>" by simp
    with assms(2) have "of_int ?n < (of_int (2 ^ nat (e + 1)) :: real)" unfolding pe by linarith
    then show ?thesis by (simp only: of_int_less_iff)
  qed
  have "bitlen ?n \<le> e + 1" using hi e0 by (simp add: bitlen_le_iff_power)
  moreover have "e + 1 \<le> bitlen ?n" using lo e0 by (simp add: bitlen_ge_iff_power nat_add_distrib)
  ultimately show ?thesis using True by (simp add: exponent_def)
next
  case False
  then have x1: "\<bar>x\<bar> < 1" by simp
  have xp: "0 < \<bar>x\<bar>"
  proof -
    have "(0::real) < 2 powi e" by simp
    with assms(1) show ?thesis by linarith
  qed
  have e0: "e < 0"
  proof (rule ccontr)
    assume "\<not> e < 0"
    then have "(2::real) powi 0 \<le> 2 powi e" by (intro power_int_increasing) simp_all
    with assms(1) x1 show False by simp
  qed
  let ?N = "\<lceil>1 / \<bar>x\<bar>\<rceil>"
  have "nat (- (e + 1)) = nat (- e - 1)" by simp
  then have pe: "(2::real) powi e = 1 / of_int (2 ^ nat (- e))"
    "(2::real) powi (e + 1) = 1 / of_int (2 ^ nat (- e - 1))"
    using e0 by (auto simp: power_int_def field_simps)
  have "1 / \<bar>x\<bar> \<le> of_int (2 ^ nat (- e))"
    using assms(1) xp unfolding pe by (simp add: field_simps)
  then have hi: "?N \<le> 2 ^ nat (- e)" by (simp only: ceiling_le_iff)
  have "of_int (2 ^ nat (- e - 1)) < 1 / \<bar>x\<bar>"
    using assms(2) xp unfolding pe by (simp add: field_simps)
  then have lo: "2 ^ nat (- e - 1) < ?N" by (simp only: less_ceiling_iff)
  have "bitlen (?N - 1) \<le> - e" using hi e0 by (simp add: bitlen_le_iff_power)
  moreover have "- e \<le> bitlen (?N - 1)"
  proof -
    have "nat (- e) - 1 = nat (- e - 1)" using e0 by simp
    then show ?thesis using lo e0 by (simp add: bitlen_ge_iff_power)
  qed
  ultimately show ?thesis using False by (simp add: exponent_def)
qed

lemma round_even_near:
  assumes "\<bar>t - of_int m\<bar> < 1 / 2"
  shows "round_even t = m"
proof (cases "of_int m \<le> t")
  case True
  then have "\<lfloor>t\<rfloor> = m" using assms by (intro floor_unique) linarith+
  then show ?thesis using assms True by (simp add: round_even_def Let_def)
next
  case False
  have a: "real_of_int (m - 1) = of_int m - 1" by simp
  have "of_int (m - 1) \<le> t" using assms False unfolding a by linarith
  moreover have "t < of_int (m - 1) + 1" using assms False unfolding a by linarith
  ultimately have f: "\<lfloor>t\<rfloor> = m - 1" by (rule floor_unique)
  have "1 / 2 < t - of_int (m - 1)" using assms False unfolding a by linarith
  then show ?thesis using f by (simp add: round_even_def Let_def)
qed

lemma round_even_tie:
  assumes "t = of_int f + 1 / 2"
  shows "round_even t = (if even f then f else f + 1)"
proof -
  have "\<lfloor>t\<rfloor> = f" unfolding assms by (rule floor_unique) simp_all
  then show ?thesis by (simp add: round_even_def Let_def assms)
qed

lemma binary64_round:
  assumes "2 powi e \<le> \<bar>x\<bar>" "\<bar>x\<bar> < 2 powi (e + 1)" "- 1022 \<le> e"
    "round_even (x / 2 powi (e - 52)) = m"
    "c = of_int m * 2 powi (e - 52)" "\<bar>c\<bar> < 2 ^ 1024"
  shows "binary64 x = Fin c"
proof -
  have "(0::real) < 2 powi e" by simp
  with assms(1) have "0 < \<bar>x\<bar>" by linarith
  then have x0: "x \<noteq> 0" by auto
  have e: "max (exponent x) (- 1022) = e"
    using exponent_eqI [OF assms(1,2)] assms(3) by simp
  show ?thesis
    using x0 assms(6) assms(4)
    by (simp add: binary64_def Let_def e assms(5))
qed

text \<open>
  The rounding of \<open>x\<close> in the normal range: \<open>e\<close> is its exponent and \<open>m\<close> the integer
  nearest to \<open>x / 2\<^sup>e\<^sup>-\<^sup>5\<^sup>2\<close>.
\<close>

lemma binary64_eval:
  assumes "2 powi e \<le> \<bar>x\<bar>" "\<bar>x\<bar> < 2 powi (e + 1)" "- 1022 \<le> e"
    "\<bar>x / 2 powi (e - 52) - of_int m\<bar> < 1 / 2"
    "c = of_int m * 2 powi (e - 52)" "\<bar>c\<bar> < 2 ^ 1024"
  shows "binary64 x = Fin c"
  using assms(1-3) round_even_near [OF assms(4)] assms(5,6) by (rule binary64_round)

text \<open>The same where \<open>x / 2\<^sup>e\<^sup>-\<^sup>5\<^sup>2\<close> is half way between \<open>f\<close> and \<open>f + 1\<close>.\<close>

lemma binary64_tie:
  assumes "2 powi e \<le> \<bar>x\<bar>" "\<bar>x\<bar> < 2 powi (e + 1)" "- 1022 \<le> e"
    "x / 2 powi (e - 52) = of_int f + 1 / 2"
    "c = of_int (if even f then f else f + 1) * 2 powi (e - 52)" "\<bar>c\<bar> < 2 ^ 1024"
  shows "binary64 x = Fin c"
  using assms(1-3) round_even_tie [OF assms(4)] assms(5,6) by (rule binary64_round)

lemma binary64_0: "binary64 0 = Fin 0"
  by (simp add: binary64_def)

section \<open>The roundings of the examples\<close>

text \<open>
  The operations of \<^verbatim>\<open>fit\<close> on the inputs used below, each result rounded to its
  double: for every rounding the exponent and the significand are given, and checked.
\<close>

lemma binary64_r1: "binary64 7 = Fin 7"
  by (rule binary64_eval [where e = "2" and m = "7881299347898368"]) simp_all

lemma binary64_r2: "binary64 1 = Fin 1"
  by (rule binary64_eval [where e = "0" and m = "4503599627370496"]) simp_all

lemma binary64_r3: "binary64 2 = Fin 2"
  by (rule binary64_eval [where e = "1" and m = "4503599627370496"]) simp_all

lemma binary64_r4: "binary64 4 = Fin 4"
  by (rule binary64_eval [where e = "2" and m = "4503599627370496"]) simp_all

lemma binary64_r5: "binary64 49 = Fin 49"
  by (rule binary64_eval [where e = "5" and m = "6896136929411072"]) simp_all

lemma binary64_r6: "binary64 (1 / 49) = Fin (5882252574524729 / 288230376151711744)"
  by (rule binary64_eval [where e = "- 6" and m = "5882252574524729"]) simp_all

lemma binary64_r7: "binary64 (5882252574524729 / 288230376151711744) = Fin (5882252574524729 / 288230376151711744)"
  by (rule binary64_eval [where e = "- 6" and m = "5882252574524729"]) simp_all

lemma binary64_r8: "binary64 (34600895350502802498080232523441 / 83076749736557242056487941267521536) = Fin (7682942138154747 / 18446744073709551616)"
  by (rule binary64_eval [where e = "- 12" and m = "7682942138154747"]) simp_all

lemma binary64_r9: "binary64 (7682942138154747 / 18446744073709551616) = Fin (7682942138154747 / 18446744073709551616)"
  by (rule binary64_eval [where e = "- 12" and m = "7682942138154747"]) simp_all

lemma binary64_r10: "binary64 (5882252574524729 / 144115188075855872) = Fin (5882252574524729 / 144115188075855872)"
  by (rule binary64_eval [where e = "- 5" and m = "5882252574524729"]) simp_all

lemma binary64_r11: "binary64 (7682942138154747 / 9223372036854775808) = Fin (7682942138154747 / 9223372036854775808)"
  by (rule binary64_eval [where e = "- 11" and m = "7682942138154747"]) simp_all

lemma binary64_r12: "binary64 3 = Fin 3"
  by (rule binary64_eval [where e = "1" and m = "6755399441055744"]) simp_all

lemma binary64_r13: "binary64 (17646757723574187 / 288230376151711744) = Fin (4411689430893547 / 72057594037927936)"
  by (rule binary64_tie [where e = "- 5" and f = "8823378861787093"]) simp_all

lemma binary64_r14: "binary64 (23048826414464241 / 18446744073709551616) = Fin (1440551650904015 / 1152921504606846976)"
  by (rule binary64_eval [where e = "- 10" and m = "5762206603616060"]) simp_all

lemma binary64_r15: "binary64 (5882252574524729 / 72057594037927936) = Fin (5882252574524729 / 72057594037927936)"
  by (rule binary64_eval [where e = "- 4" and m = "5882252574524729"]) simp_all

lemma binary64_r16: "binary64 (2573485501354569 / 18014398509481984) = Fin (2573485501354569 / 18014398509481984)"
  by (rule binary64_eval [where e = "- 3" and m = "5146971002709138"]) simp_all

lemma binary64_r17: "binary64 (4321654952712045 / 1152921504606846976) = Fin (4321654952712045 / 1152921504606846976)"
  by (rule binary64_eval [where e = "- 9" and m = "8643309905424090"]) simp_all

lemma binary64_r18: "binary64 (19463003634657828611014846241209 / 5192296858534827628530496329220096) = Fin (2160827476356023 / 576460752303423488)"
  by (rule binary64_eval [where e = "- 9" and m = "8643309905424092"]) simp_all

lemma binary64_r19: "binary64 (- (1 / 1152921504606846976)) = Fin (- (1 / 1152921504606846976))"
  by (rule binary64_eval [where e = "- 60" and m = "- 4503599627370496"]) simp_all

lemma binary64_r20: "binary64 (1 / 100000000000000000000) = Fin (6646139978924579 / 664613997892457936451903530140172288)"
  by (rule binary64_eval [where e = "- 67" and m = "6646139978924579"]) simp_all

lemma binary64_r21: "binary64 (10083861556328105 / 1152921504606846976) = Fin (1260482694541013 / 144115188075855872)"
  by (rule binary64_tie [where e = "- 7" and f = "5041930778164052"]) simp_all

lemma binary64_r22: "binary64 (11353418786883732988784541066243 / 1298074214633706907132624082305024) = Fin (5041930778164053 / 576460752303423488)"
  by (rule binary64_eval [where e = "- 7" and m = "5041930778164053"]) simp_all

lemma binary64_r23: "binary64 (- (1 / 576460752303423488)) = Fin (- (1 / 576460752303423488))"
  by (rule binary64_eval [where e = "- 59" and m = "- 4503599627370496"]) simp_all

lemma binary64_r24: "binary64 (7720456504063707 / 18014398509481984) = Fin (7720456504063707 / 18014398509481984)"
  by (rule binary64_eval [where e = "- 2" and m = "7720456504063707"]) simp_all

lemma binary64_r25: "binary64 (30881826016254829 / 72057594037927936) = Fin (7720456504063707 / 18014398509481984)"
  by (rule binary64_eval [where e = "- 2" and m = "7720456504063707"]) simp_all

lemma binary64_r26: "binary64 (7 / 3) = Fin (5254199565265579 / 2251799813685248)"
  by (rule binary64_eval [where e = "1" and m = "5254199565265579"]) simp_all

lemma binary64_r27: "binary64 (- 1) = Fin (- 1)"
  by (rule binary64_eval [where e = "0" and m = "- 4503599627370496"]) simp_all

lemma binary64_r28: "binary64 (- (3002399751580331 / 2251799813685248)) = Fin (- (3002399751580331 / 2251799813685248))"
  by (rule binary64_eval [where e = "0" and m = "- 6004799503160662"]) simp_all

lemma binary64_r29: "binary64 (9014404268289633301131946069561 / 5070602400912917605986812821504) = Fin (4003199668773775 / 2251799813685248)"
  by (rule binary64_eval [where e = "0" and m = "8006399337547550"]) simp_all

lemma binary64_r30: "binary64 (4003199668773775 / 2251799813685248) = Fin (4003199668773775 / 2251799813685248)"
  by (rule binary64_eval [where e = "0" and m = "8006399337547550"]) simp_all

lemma binary64_r31: "binary64 (- (750599937895083 / 2251799813685248)) = Fin (- (750599937895083 / 2251799813685248))"
  by (rule binary64_eval [where e = "- 2" and m = "- 6004799503160664"]) simp_all

lemma binary64_r32: "binary64 (563400266768102456620715576889 / 5070602400912917605986812821504) = Fin (2001599834386889 / 18014398509481984)"
  by (rule binary64_eval [where e = "- 4" and m = "8006399337547556"]) simp_all

lemma binary64_r33: "binary64 (34027197184577089 / 18014398509481984) = Fin (531674956009017 / 281474976710656)"
  by (rule binary64_eval [where e = "0" and m = "8506799296144272"]) simp_all

lemma binary64_r34: "binary64 5 = Fin 5"
  by (rule binary64_eval [where e = "2" and m = "5629499534213120"]) simp_all

lemma binary64_r35: "binary64 (3752999689475413 / 2251799813685248) = Fin (3752999689475413 / 2251799813685248)"
  by (rule binary64_eval [where e = "0" and m = "7505999378950826"]) simp_all

lemma binary64_r36: "binary64 (14085006669202546403519131520569 / 5070602400912917605986812821504) = Fin (6254999482459021 / 2251799813685248)"
  by (rule binary64_eval [where e = "1" and m = "6254999482459021"]) simp_all

lemma binary64_r37: "binary64 (10508399130531157 / 2251799813685248) = Fin (2627099782632789 / 562949953421312)"
  by (rule binary64_tie [where e = "2" and f = "5254199565265578"]) simp_all

lemma binary64_r38: "binary64 (2814749767106560 / 2627099782632789) = Fin (2412642657519909 / 2251799813685248)"
  by (rule binary64_eval [where e = "0" and m = "4825285315039818"]) simp_all

lemma binary64_r39: "binary64 (- (160842843834661 / 2251799813685248)) = Fin (- (160842843834661 / 2251799813685248))"
  by (rule binary64_eval [where e = "- 4" and m = "- 5146971002709152"]) simp_all

lemma binary64_r40: "binary64 9 = Fin 9"
  by (rule binary64_eval [where e = "3" and m = "5066549580791808"]) simp_all

lemma binary64_r41: "binary64 (1 / 9) = Fin (2001599834386887 / 18014398509481984)"
  by (rule binary64_eval [where e = "- 4" and m = "8006399337547548"]) simp_all

lemma binary64_r42: "binary64 (2001599834386887 / 18014398509481984) = Fin (2001599834386887 / 18014398509481984)"
  by (rule binary64_eval [where e = "- 4" and m = "8006399337547548"]) simp_all

lemma binary64_r43: "binary64 (4006401897017613466103197550769 / 324518553658426726783156020576256) = Fin (222399981598543 / 18014398509481984)"
  by (rule binary64_eval [where e = "- 7" and m = "7116799411153376"]) simp_all

lemma binary64_r44: "binary64 (222399981598543 / 18014398509481984) = Fin (222399981598543 / 18014398509481984)"
  by (rule binary64_eval [where e = "- 7" and m = "7116799411153376"]) simp_all

lemma binary64_r45: "binary64 (2001599834386887 / 9007199254740992) = Fin (2001599834386887 / 9007199254740992)"
  by (rule binary64_eval [where e = "- 3" and m = "8006399337547548"]) simp_all

lemma binary64_r46: "binary64 (222399981598543 / 9007199254740992) = Fin (222399981598543 / 9007199254740992)"
  by (rule binary64_eval [where e = "- 6" and m = "7116799411153376"]) simp_all

lemma binary64_r47: "binary64 (6004799503160661 / 18014398509481984) = Fin (6004799503160661 / 18014398509481984)"
  by (rule binary64_eval [where e = "- 2" and m = "6004799503160661"]) simp_all

lemma binary64_r48: "binary64 (222399981598543 / 4503599627370496) = Fin (222399981598543 / 4503599627370496)"
  by (rule binary64_eval [where e = "- 5" and m = "7116799411153376"]) simp_all

lemma binary64_r49: "binary64 (4006401897017613466103197550769 / 81129638414606681695789005144064) = Fin (222399981598543 / 4503599627370496)"
  by (rule binary64_eval [where e = "- 5" and m = "7116799411153376"]) simp_all

lemma binary64_r50: "binary64 (67108865 / 67108864) = Fin (67108865 / 67108864)"
  by (rule binary64_eval [where e = "0" and m = "4503599694479360"]) simp_all

lemma binary64_r51: "binary64 (4503599761588225 / 4503599627370496) = Fin (4503599761588225 / 4503599627370496)"
  by (rule binary64_eval [where e = "0" and m = "4503599761588225"]) simp_all

lemma binary64_r52: "binary64 (4503599627370496 / 4503599761588225) = Fin (4503599493152771 / 4503599627370496)"
  by (rule binary64_eval [where e = "- 1" and m = "9007198986305542"]) simp_all

lemma binary64_r53: "binary64 (9007199120523267 / 4503599627370496) = Fin (9007199120523267 / 4503599627370496)"
  by (rule binary64_eval [where e = "0" and m = "9007199120523267"]) simp_all

lemma binary64_r54: "binary64 (20282408394725895845313544978441 / 20282409603651670423947251286016) = Fin (2251799679467525 / 2251799813685248)"
  by (rule binary64_eval [where e = "- 1" and m = "9007198717870100"]) simp_all

lemma binary64_r55: "binary64 (4503599493152773 / 2251799813685248) = Fin (4503599493152773 / 2251799813685248)"
  by (rule binary64_eval [where e = "0" and m = "9007198986305546"]) simp_all

lemma binary64_r56: "binary64 (4503599493152771 / 2251799813685248) = Fin (4503599493152771 / 2251799813685248)"
  by (rule binary64_eval [where e = "0" and m = "9007198986305542"]) simp_all

lemma binary64_r57: "binary64 (6755399306838019 / 2251799813685248) = Fin (6755399306838019 / 2251799813685248)"
  by (rule binary64_eval [where e = "1" and m = "6755399306838019"]) simp_all

lemma binary64_r58: "binary64 (4503599493152773 / 1125899906842624) = Fin (4503599493152773 / 1125899906842624)"
  by (rule binary64_eval [where e = "1" and m = "9007198986305546"]) simp_all

lemma binary64_r59: "binary64 (81129635996755114524123888353289 / 20282409603651670423947251286016) = Fin (1125899873288193 / 281474976710656)"
  by (rule binary64_eval [where e = "1" and m = "9007198986305544"]) simp_all

lemma binary64_r60: "binary64 (1 / 1125899906842624) = Fin (1 / 1125899906842624)"
  by (rule binary64_eval [where e = "- 50" and m = "4503599627370496"]) simp_all

lemma binary64_r61: "binary64 (13510798479458319 / 2251799813685248) = Fin (844424904966145 / 140737488355328)"
  by (rule binary64_tie [where e = "2" and f = "6755399239729159"]) simp_all

lemma binary64_r62: "binary64 (60847226695334892248434489688073 / 10141204801825835211973625643008) = Fin (6755399206174727 / 1125899906842624)"
  by (rule binary64_eval [where e = "2" and m = "6755399206174727"]) simp_all

lemma binary64_r63: "binary64 (33554433 / 1125899906842624) = Fin (33554433 / 1125899906842624)"
  by (rule binary64_eval [where e = "- 25" and m = "4503599761588224"]) simp_all

lemma binary64_r64: "binary64 33554433 = Fin 33554433"
  by (rule binary64_eval [where e = "25" and m = "4503599761588224"]) simp_all

lemma binary64_r65: "binary64 (6755399306838019 / 1125899906842624) = Fin (6755399306838019 / 1125899906842624)"
  by (rule binary64_eval [where e = "2" and m = "6755399306838019"]) simp_all

lemma binary64_r66: "binary64 (27021597361569801 / 4503599627370496) = Fin (3377699670196225 / 562949953421312)"
  by (rule binary64_eval [where e = "2" and m = "6755399340392450"]) simp_all

lemma binary64_r67: "binary64 (- (33554431 / 1125899906842624)) = Fin (- (33554431 / 1125899906842624))"
  by (rule binary64_eval [where e = "- 26" and m = "- 9007198986305536"]) simp_all

lemma binary64_r68: "binary64 (- 33554431) = Fin (- 33554431)"
  by (rule binary64_eval [where e = "24" and m = "- 9007198986305536"]) simp_all

lemma binary64_r69: "binary64 (- (151115722948229019467776 / 4503599761588225)) = Fin (- (4503599358935047 / 134217728))"
  by (rule binary64_eval [where e = "24" and m = "- 9007198717870094"]) simp_all

lemma binary64_r70: "binary64 (402653177 / 134217728) = Fin (402653177 / 134217728)"
  by (rule binary64_eval [where e = "1" and m = "6755399323615232"]) simp_all

lemma binary64_r71: "binary64 (3 / 2) = Fin (3 / 2)"
  by (rule binary64_eval [where e = "0" and m = "6755399441055744"]) simp_all

lemma binary64_r72: "binary64 (- (1 / 2)) = Fin (- (1 / 2))"
  by (rule binary64_eval [where e = "- 1" and m = "- 4503599627370496"]) simp_all

lemma binary64_r73: "binary64 (1 / 4) = Fin (1 / 4)"
  by (rule binary64_eval [where e = "- 2" and m = "4503599627370496"]) simp_all

lemma binary64_r74: "binary64 (- (134217721 / 134217728)) = Fin (- (134217721 / 134217728))"
  by (rule binary64_eval [where e = "- 1" and m = "- 9007198784978944"]) simp_all

lemma binary64_r75: "binary64 (18014396630433841 / 18014398509481984) = Fin (1125899789402115 / 1125899906842624)"
  by (rule binary64_tie [where e = "- 1" and f = "9007198315216920"]) simp_all

lemma binary64_r76: "binary64 (2251799696244739 / 1125899906842624) = Fin (2251799696244739 / 1125899906842624)"
  by (rule binary64_eval [where e = "0" and m = "9007198784978956"]) simp_all

lemma binary64_r77: "binary64 (1 / 2) = Fin (1 / 2)"
  by (rule binary64_eval [where e = "- 1" and m = "4503599627370496"]) simp_all

lemma binary64_r78: "binary64 (2251799696244739 / 562949953421312) = Fin (2251799696244739 / 562949953421312)"
  by (rule binary64_eval [where e = "1" and m = "9007198784978956"]) simp_all

lemma binary64_r79: "binary64 (- (1688849742823427 / 562949953421312)) = Fin (- (1688849742823427 / 562949953421312))"
  by (rule binary64_eval [where e = "1" and m = "- 6755398971293708"]) simp_all

lemma binary64_r80: "binary64 (6 / 5) = Fin (5404319552844595 / 4503599627370496)"
  by (rule binary64_eval [where e = "0" and m = "5404319552844595"]) simp_all

lemma binary64_r81: "binary64 (4 / 5) = Fin (3602879701896397 / 4503599627370496)"
  by (rule binary64_eval [where e = "- 1" and m = "7205759403792794"]) simp_all

lemma binary64_r82: "binary64 16 = Fin 16"
  by (rule binary64_eval [where e = "4" and m = "4503599627370496"]) simp_all

lemma binary64_r83: "binary64 (1 / 16) = Fin (1 / 16)"
  by (rule binary64_eval [where e = "- 4" and m = "4503599627370496"]) simp_all

lemma binary64_r84: "binary64 (5 / 4) = Fin (5 / 4)"
  by (rule binary64_eval [where e = "0" and m = "5629499534213120"]) simp_all

lemma binary64_r85: "binary64 (17 / 16) = Fin (17 / 16)"
  by (rule binary64_eval [where e = "0" and m = "4785074604081152"]) simp_all

lemma binary64_r86: "binary64 (11 / 2) = Fin (11 / 2)"
  by (rule binary64_eval [where e = "2" and m = "6192449487634432"]) simp_all

lemma binary64_r87: "binary64 (24519597971239367 / 18014398509481984) = Fin (3064949746404921 / 2251799813685248)"
  by (rule binary64_eval [where e = "0" and m = "6129899492809842"]) simp_all

lemma binary64_r88: "binary64 (19362698397923151 / 18014398509481984) = Fin (1210168649870197 / 1125899906842624)"
  by (rule binary64_eval [where e = "0" and m = "4840674599480788"]) simp_all

lemma binary64_r89: "binary64 (36929516944438067 / 4503599627370496) = Fin (2308094809027379 / 281474976710656)"
  by (rule binary64_eval [where e = "3" and m = "4616189618054758"]) simp_all

lemma binary64_r90: "binary64 (10817285121947556558638616825765 / 81129638414606681695789005144064) = Fin (4803839602528529 / 36028797018963968)"
  by (rule binary64_eval [where e = "- 3" and m = "4803839602528529"]) simp_all

lemma binary64_r91: "binary64 (202962223206830353 / 36028797018963968) = Fin (6342569475213449 / 1125899906842624)"
  by (rule binary64_eval [where e = "2" and m = "6342569475213449"]) simp_all

lemma binary64_r92: "binary64 (3205687234760249 / 2251799813685248) = Fin (3205687234760249 / 2251799813685248)"
  by (rule binary64_eval [where e = "0" and m = "6411374469520498"]) simp_all

lemma binary64_r93: "binary64 (1 / 256) = Fin (1 / 256)"
  by (rule binary64_eval [where e = "- 8" and m = "4503599627370496"]) simp_all

lemma binary64_r94: "binary64 (1214566696381301 / 1125899906842624) = Fin (1214566696381301 / 1125899906842624)"
  by (rule binary64_eval [where e = "0" and m = "4858266785525204"]) simp_all

lemma binary64_r95: "binary64 (40532396646334461 / 4503599627370496) = Fin 9"
  by (rule binary64_eval [where e = "3" and m = "5066549580791808"]) simp_all

lemma binary64_r96: "binary64 (3602879701896397 / 72057594037927936) = Fin (3602879701896397 / 72057594037927936)"
  by (rule binary64_eval [where e = "- 5" and m = "7205759403792794"]) simp_all

lemma binary64_r97: "binary64 (409527326115557133 / 72057594037927936) = Fin (1599716117638895 / 281474976710656)"
  by (rule binary64_eval [where e = "2" and m = "6398864470555580"]) simp_all

lemma binary64_r98: "binary64 (1214566696381301 / 281474976710656) = Fin (1214566696381301 / 281474976710656)"
  by (rule binary64_eval [where e = "2" and m = "4858266785525204"]) simp_all

lemma binary64_r99: "binary64 (10276430647104811784500510542001 / 5070602400912917605986812821504) = Fin (71307061971121 / 35184372088832)"
  by (rule binary64_eval [where e = "1" and m = "4563651966151744"]) simp_all

lemma binary64_r100: "binary64 (644110200612333 / 281474976710656) = Fin (644110200612333 / 281474976710656)"
  by (rule binary64_eval [where e = "1" and m = "5152881604898664"]) simp_all

lemma binary64_r101: "binary64 (10931100267431709 / 1125899906842624) = Fin (2732775066857927 / 281474976710656)"
  by (rule binary64_tie [where e = "3" and f = "5465550133715854"]) simp_all

lemma binary64_r102: "binary64 (5128189537555230502085282284855 / 633825300114114700748351602688) = Fin (4554747279388521 / 562949953421312)"
  by (rule binary64_eval [where e = "3" and m = "4554747279388521"]) simp_all

lemma binary64_r103: "binary64 (910802854327333 / 562949953421312) = Fin (910802854327333 / 562949953421312)"
  by (rule binary64_eval [where e = "0" and m = "7286422834618664"]) simp_all

lemma binary64_r104: "binary64 (910802854327333 / 1288220401224666) = Fin (1592076709644187 / 2251799813685248)"
  by (rule binary64_eval [where e = "- 1" and m = "6368306838576748"]) simp_all

lemma binary64_r105: "binary64 (1599716117638895 / 70368744177664) = Fin (1599716117638895 / 70368744177664)"
  by (rule binary64_eval [where e = "4" and m = "6398864470555580"]) simp_all

lemma binary64_r106: "binary64 (28851185112842241 / 2251799813685248) = Fin (205 / 16)"
  by (rule binary64_eval [where e = "3" and m = "7212796278210560"]) simp_all

lemma binary64_r107: "binary64 (698116582862575 / 70368744177664) = Fin (698116582862575 / 70368744177664)"
  by (rule binary64_eval [where e = "3" and m = "5584932662900600"]) simp_all

lemma binary64_r108: "binary64 (2792466331450300 / 644110200612333) = Fin (305075666734913 / 70368744177664)"
  by (rule binary64_eval [where e = "2" and m = "4881210667758608"]) simp_all

lemma binary64_r109: "binary64 (305075666734913 / 70368744177664) = Fin (305075666734913 / 70368744177664)"
  by (rule binary64_eval [where e = "2" and m = "4881210667758608"]) simp_all

lemma binary64_r110: "binary64 (11354498045161403 / 2251799813685248) = Fin (2838624511290351 / 562949953421312)"
  by (rule binary64_tie [where e = "2" and f = "5677249022580701"]) simp_all

lemma binary64_r111: "binary64 (305075666734913 / 281474976710656) = Fin (305075666734913 / 281474976710656)"
  by (rule binary64_eval [where e = "0" and m = "4881210667758608"]) simp_all

lemma binary64_r112: "binary64 (4032682043523491 / 2251799813685248) = Fin (4032682043523491 / 2251799813685248)"
  by (rule binary64_eval [where e = "0" and m = "8065364087046982"]) simp_all

lemma binary64_r113: "binary64 (305075666734913 / 633318697598976) = Fin (8677707853793081 / 18014398509481984)"
  by (rule binary64_eval [where e = "- 2" and m = "8677707853793081"]) simp_all

lemma binary64_r114: "binary64 (21414321530946577 / 18014398509481984) = Fin (1338395095684161 / 1125899906842624)"
  by (rule binary64_eval [where e = "0" and m = "5353580382736644"]) simp_all

lemma binary64_r115: "binary64 (305075666734913 / 1125899906842624) = Fin (305075666734913 / 1125899906842624)"
  by (rule binary64_eval [where e = "- 2" and m = "4881210667758608"]) simp_all

lemma binary64_r116: "binary64 (2202228043114013 / 2251799813685248) = Fin (2202228043114013 / 2251799813685248)"
  by (rule binary64_eval [where e = "- 1" and m = "8808912172456052"]) simp_all

lemma binary64_r117: "binary64 (9 / 4) = Fin (9 / 4)"
  by (rule binary64_eval [where e = "1" and m = "5066549580791808"]) simp_all

lemma binary64_r118: "binary64 (- (23874744183791 / 562949953421312)) = Fin (- (23874744183791 / 562949953421312))"
  by (rule binary64_eval [where e = "- 5" and m = "- 6111934511050496"]) simp_all

lemma binary64_r119: "binary64 (570003409841462182787131681 / 316912650057057350374175801344) = Fin (8294641299893005 / 4611686018427387904)"
  by (rule binary64_eval [where e = "- 10" and m = "8294641299893005"]) simp_all

lemma binary64_r120: "binary64 (8294641299893005 / 4611686018427387904) = Fin (8294641299893005 / 4611686018427387904)"
  by (rule binary64_eval [where e = "- 10" and m = "8294641299893005"]) simp_all

lemma binary64_r121: "binary64 (11 / 4) = Fin (11 / 4)"
  by (rule binary64_eval [where e = "1" and m = "6192449487634432"]) simp_all

lemma binary64_r122: "binary64 (121 / 16) = Fin (121 / 16)"
  by (rule binary64_eval [where e = "2" and m = "8514618045497344"]) simp_all

lemma binary64_r123: "binary64 (470917583847005 / 2251799813685248) = Fin (470917583847005 / 2251799813685248)"
  by (rule binary64_eval [where e = "- 3" and m = "7534681341552080"]) simp_all

lemma binary64_r124: "binary64 (221763370776300984495247470025 / 5070602400912917605986812821504) = Fin (3151447043255487 / 72057594037927936)"
  by (rule binary64_eval [where e = "- 5" and m = "6302894086510974"]) simp_all

lemma binary64_r125: "binary64 (209987252068244173 / 4611686018427387904) = Fin (3281050813566315 / 72057594037927936)"
  by (rule binary64_eval [where e = "- 5" and m = "6562101627132630"]) simp_all

lemma binary64_r126: "binary64 (- (1 / 4)) = Fin (- (1 / 4))"
  by (rule binary64_eval [where e = "- 2" and m = "- 4503599627370496"]) simp_all

lemma binary64_r127: "binary64 (61 / 8) = Fin (61 / 8)"
  by (rule binary64_eval [where e = "2" and m = "8584986789675008"]) simp_all

lemma binary64_r128: "binary64 (50739170107951 / 4503599627370496) = Fin (50739170107951 / 4503599627370496)"
  by (rule binary64_eval [where e = "- 7" and m = "6494613773817728"]) simp_all

lemma binary64_r129: "binary64 (2574463383243588292993418401 / 20282409603651670423947251286016) = Fin (2341460806968451 / 18446744073709551616)"
  by (rule binary64_eval [where e = "- 13" and m = "4682921613936902"]) simp_all

lemma binary64_r130: "binary64 (842290469079945091 / 18446744073709551616) = Fin (6580394289687071 / 144115188075855872)"
  by (rule binary64_eval [where e = "- 5" and m = "6580394289687071"]) simp_all

lemma binary64_r131: "binary64 (- (4728779608739021 / 4503599627370496)) = Fin (- (4728779608739021 / 4503599627370496))"
  by (rule binary64_eval [where e = "0" and m = "- 4728779608739021"]) simp_all

lemma binary64_r132: "binary64 (22361356588025968533913688038441 / 20282409603651670423947251286016) = Fin (1241304647293993 / 1125899906842624)"
  by (rule binary64_eval [where e = "0" and m = "4965218589175972"]) simp_all

lemma binary64_r133: "binary64 (9826291436969001 / 1125899906842624) = Fin (1228286429621125 / 140737488355328)"
  by (rule binary64_tie [where e = "3" and f = "4913145718484500"]) simp_all

lemma binary64_r134: "binary64 (- (801576384331629 / 4503599627370496)) = Fin (- (801576384331629 / 4503599627370496))"
  by (rule binary64_eval [where e = "- 3" and m = "- 6412611074653032"]) simp_all

lemma binary64_r135: "binary64 (642524699918167405409049793641 / 20282409603651670423947251286016) = Fin (4565412580732921 / 144115188075855872)"
  by (rule binary64_eval [where e = "- 5" and m = "4565412580732921"]) simp_all

lemma binary64_r136: "binary64 (1393225858802499 / 18014398509481984) = Fin (1393225858802499 / 18014398509481984)"
  by (rule binary64_eval [where e = "- 4" and m = "5572903435209996"]) simp_all

lemma binary64_r137: "binary64 (- (6530219459687219 / 4503599627370496)) = Fin (- (6530219459687219 / 4503599627370496))"
  by (rule binary64_eval [where e = "0" and m = "- 6530219459687219"]) simp_all

lemma binary64_r138: "binary64 (42643766191677634454261311953961 / 20282409603651670423947251286016) = Fin (2367204554136617 / 1125899906842624)"
  by (rule binary64_eval [where e = "1" and m = "4734409108273234"]) simp_all

lemma binary64_r139: "binary64 (12193495991105617 / 1125899906842624) = Fin (762093499444101 / 70368744177664)"
  by (rule binary64_tie [where e = "3" and f = "6096747995552808"]) simp_all

lemma binary64_r140: "binary64 (464408619600833 / 65031978619229952) = Fin (2058320751693443 / 288230376151711744)"
  by (rule binary64_eval [where e = "- 8" and m = "8233283006773772"]) simp_all

lemma binary64_r141: "binary64 (286172055400018301 / 288230376151711744) = Fin (2235719182812643 / 2251799813685248)"
  by (rule binary64_eval [where e = "- 1" and m = "8942876731250572"]) simp_all

lemma binary64_r142: "binary64 (1243 / 8) = Fin (1243 / 8)"
  by (rule binary64_eval [where e = "7" and m = "5466771813302272"]) simp_all

lemma binary64_r143: "binary64 (- (377 / 8)) = Fin (- (377 / 8))"
  by (rule binary64_eval [where e = "5" and m = "- 6632254138744832"]) simp_all

lemma binary64_r144: "binary64 (- (433 / 4)) = Fin (- (433 / 4))"
  by (rule binary64_eval [where e = "6" and m = "- 7617416557232128"]) simp_all

lemma binary64_r145: "binary64 (433 / 4) = Fin (433 / 4)"
  by (rule binary64_eval [where e = "6" and m = "7617416557232128"]) simp_all

lemma binary64_r146: "binary64 (- (377 / 32)) = Fin (- (377 / 32))"
  by (rule binary64_eval [where e = "3" and m = "- 6632254138744832"]) simp_all

lemma binary64_r147: "binary64 (4595 / 32) = Fin (4595 / 32)"
  by (rule binary64_eval [where e = "7" and m = "5052255929630720"]) simp_all

lemma binary64_r148: "binary64 (21 / 16) = Fin (21 / 16)"
  by (rule binary64_eval [where e = "0" and m = "5910974510923776"]) simp_all

lemma binary64_r149: "binary64 (273 / 256) = Fin (273 / 256)"
  by (rule binary64_eval [where e = "0" and m = "4802666790125568"]) simp_all

lemma binary64_r150: "binary64 (- (433 / 64)) = Fin (- (433 / 64))"
  by (rule binary64_eval [where e = "2" and m = "- 7617416557232128"]) simp_all

lemma binary64_r151: "binary64 (8757 / 64) = Fin (8757 / 64)"
  by (rule binary64_eval [where e = "7" and m = "4814211662217216"]) simp_all

lemma binary64_r152: "binary64 (819 / 256) = Fin (819 / 256)"
  by (rule binary64_eval [where e = "1" and m = "7204000185188352"]) simp_all

lemma binary64_r153: "binary64 (441 / 256) = Fin (441 / 256)"
  by (rule binary64_eval [where e = "0" and m = "7758154045587456"]) simp_all

lemma binary64_r154: "binary64 (189 / 128) = Fin (189 / 128)"
  by (rule binary64_eval [where e = "0" and m = "6649846324789248"]) simp_all

lemma binary64_r155: "binary64 (183897 / 1024) = Fin (183897 / 1024)"
  by (rule binary64_eval [where e = "7" and m = "6318652806660096"]) simp_all

lemma binary64_r156: "binary64 (- (183897 / 1024)) = Fin (- (183897 / 1024))"
  by (rule binary64_eval [where e = "7" and m = "- 6318652806660096"]) simp_all

lemma binary64_r157: "binary64 (- (973 / 8)) = Fin (- (973 / 8))"
  by (rule binary64_eval [where e = "6" and m = "- 8558598510608384"]) simp_all

lemma binary64_r158: "binary64 (26271 / 64) = Fin (26271 / 64)"
  by (rule binary64_eval [where e = "8" and m = "7221317493325824"]) simp_all

lemma binary64_r159: "binary64 278 = Fin 278"
  by (rule binary64_eval [where e = "8" and m = "4890627720347648"]) simp_all

lemma binary64_r160: "binary64 (1251 / 8) = Fin (1251 / 8)"
  by (rule binary64_eval [where e = "7" and m = "5501956185391104"]) simp_all

lemma binary64_r161: "binary64 (139 / 2) = Fin (139 / 2)"
  by (rule binary64_eval [where e = "6" and m = "4890627720347648"]) simp_all

lemma binary64_r162: "binary64 (- (417 / 8)) = Fin (- (417 / 8))"
  by (rule binary64_eval [where e = "5" and m = "- 7335941580521472"]) simp_all

lemma binary64_r163: "binary64 (139 / 8) = Fin (139 / 8)"
  by (rule binary64_eval [where e = "4" and m = "4890627720347648"]) simp_all

lemma binary64_r164: "binary64 (- (417 / 4)) = Fin (- (417 / 4))"
  by (rule binary64_eval [where e = "6" and m = "- 7335941580521472"]) simp_all

lemma binary64_r165: "binary64 (1545049 / 64) = Fin (1545049 / 64)"
  by (rule binary64_eval [where e = "14" and m = "6635934925717504"]) simp_all

lemma binary64_r166: "binary64 25 = Fin 25"
  by (rule binary64_eval [where e = "4" and m = "7036874417766400"]) simp_all

lemma binary64_r167: "binary64 26 = Fin 26"
  by (rule binary64_eval [where e = "4" and m = "7318349394477056"]) simp_all

lemma binary64_r168: "binary64 (142129 / 64) = Fin (142129 / 64)"
  by (rule binary64_eval [where e = "11" and m = "4883515254505472"]) simp_all

lemma binary64_r169: "binary64 (843589 / 32) = Fin (843589 / 32)"
  by (rule binary64_eval [where e = "14" and m = "7246374332530688"]) simp_all

lemma binary64_r170: "binary64 (- 4) = Fin (- 4)"
  by (rule binary64_eval [where e = "2" and m = "- 4503599627370496"]) simp_all

lemma binary64_r171: "binary64 42 = Fin 42"
  by (rule binary64_eval [where e = "5" and m = "5910974510923776"]) simp_all

lemma binary64_r172: "binary64 (187489 / 16) = Fin (187489 / 16)"
  by (rule binary64_eval [where e = "13" and m = "6442072986877952"]) simp_all

lemma binary64_r173: "binary64 (1218567 / 32) = Fin (1218567 / 32)"
  by (rule binary64_eval [where e = "15" and m = "5233705412984832"]) simp_all

lemma binary64_r174: "binary64 (64 / 58027) = Fin (2543194591994699 / 2305843009213693952)"
  by (rule binary64_eval [where e = "- 10" and m = "5086389183989398"]) simp_all

lemma binary64_r175: "binary64 (2303299814621699253 / 2305843009213693952) = Fin (8997264900866013 / 9007199254740992)"
  by (rule binary64_eval [where e = "- 1" and m = "8997264900866013"]) simp_all

lemma binary64_r176: "binary64 (17 / 8) = Fin (17 / 8)"
  by (rule binary64_eval [where e = "1" and m = "4785074604081152"]) simp_all

lemma binary64_r177: "binary64 (25 / 16) = Fin (25 / 16)"
  by (rule binary64_eval [where e = "0" and m = "7036874417766400"]) simp_all

lemma binary64_r178: "binary64 (9 / 16) = Fin (9 / 16)"
  by (rule binary64_eval [where e = "- 1" and m = "5066549580791808"]) simp_all

lemma binary64_r179: "binary64 (85 / 64) = Fin (85 / 64)"
  by (rule binary64_eval [where e = "0" and m = "5981343255101440"]) simp_all

lemma binary64_r180: "binary64 (5 / 8) = Fin (5 / 8)"
  by (rule binary64_eval [where e = "- 1" and m = "5629499534213120"]) simp_all

lemma binary64_r181: "binary64 (3 / 8) = Fin (3 / 8)"
  by (rule binary64_eval [where e = "- 2" and m = "6755399441055744"]) simp_all

lemma binary64_r182: "binary64 (9 / 64) = Fin (9 / 64)"
  by (rule binary64_eval [where e = "- 3" and m = "5066549580791808"]) simp_all

lemma binary64_r183: "binary64 (- (3 / 8)) = Fin (- (3 / 8))"
  by (rule binary64_eval [where e = "- 2" and m = "- 6755399441055744"]) simp_all

lemma binary64_r184: "binary64 (9 / 32) = Fin (9 / 32)"
  by (rule binary64_eval [where e = "- 2" and m = "5066549580791808"]) simp_all

lemmas roundings_sevens = binary64_0 binary64_r1 binary64_r2 binary64_r3 binary64_r4 binary64_r5 binary64_r6 binary64_r7 binary64_r8 binary64_r9 binary64_r10 binary64_r11 binary64_r12 binary64_r13 binary64_r14 binary64_r15 binary64_r16 binary64_r17 binary64_r18 binary64_r19 binary64_r20 binary64_r21 binary64_r22 binary64_r23 binary64_r24 binary64_r25 binary64_r26 binary64_r27 binary64_r28 binary64_r29 binary64_r30 binary64_r31 binary64_r32 binary64_r33 binary64_r34 binary64_r35 binary64_r36 binary64_r37 binary64_r38 binary64_r39

lemmas roundings_threes = binary64_0 binary64_r12 binary64_r2 binary64_r3 binary64_r40 binary64_r41 binary64_r42 binary64_r43 binary64_r44 binary64_r45 binary64_r46 binary64_r47 binary64_r48 binary64_r49 binary64_r20

lemmas roundings_close = binary64_0 binary64_r2 binary64_r50 binary64_r3 binary64_r51 binary64_r52 binary64_r53 binary64_r54 binary64_r55 binary64_r12 binary64_r56 binary64_r57 binary64_r58 binary64_r59 binary64_r60 binary64_r20 binary64_r61 binary64_r62 binary64_r63 binary64_r64 binary64_r65 binary64_r66 binary64_r67 binary64_r68 binary64_r69 binary64_r70 binary64_r71 binary64_r27 binary64_r72 binary64_r73 binary64_r74 binary64_r75 binary64_r76 binary64_r77 binary64_r78 binary64_r79

lemmas roundings_rows = binary64_0 binary64_r2 binary64_r3 binary64_r12 binary64_r4 binary64_r34 binary64_r80 binary64_r81 binary64_r73 binary64_r40 binary64_r41 binary64_r82 binary64_r83 binary64_r84 binary64_r85 binary64_r1 binary64_r77 binary64_r86 binary64_r87 binary64_r43 binary64_r88 binary64_r89 binary64_r90 binary64_r91 binary64_r92 binary64_r93 binary64_r94 binary64_r95 binary64_r96 binary64_r97 binary64_r98 binary64_r99 binary64_r100 binary64_r20 binary64_r101 binary64_r102 binary64_r103 binary64_r104 binary64_r105 binary64_r106 binary64_r107 binary64_r108 binary64_r109 binary64_r110 binary64_r111 binary64_r112 binary64_r113 binary64_r114 binary64_r115 binary64_r116 binary64_r117 binary64_r118 binary64_r119 binary64_r120 binary64_r121 binary64_r122 binary64_r123 binary64_r124 binary64_r125 binary64_r126 binary64_r127 binary64_r128 binary64_r129 binary64_r130 binary64_r131 binary64_r132 binary64_r133 binary64_r134 binary64_r135 binary64_r136 binary64_r137 binary64_r138 binary64_r139 binary64_r140 binary64_r141

lemmas roundings_overflow = binary64_0 binary64_r2 binary64_r3 binary64_r4 binary64_r142 binary64_r143 binary64_r144 binary64_r73 binary64_r82 binary64_r83 binary64_r84 binary64_r85 binary64_r145 binary64_r146 binary64_r147 binary64_r148 binary64_r93 binary64_r149 binary64_r150 binary64_r151 binary64_r152 binary64_r153 binary64_r154 binary64_r20 binary64_r155 binary64_r156 binary64_r157 binary64_r158 binary64_r159 binary64_r160 binary64_r161 binary64_r162 binary64_r163 binary64_r164 binary64_r27 binary64_r165 binary64_r34 binary64_r166 binary64_r167 binary64_r168 binary64_r169 binary64_r170 binary64_r171 binary64_r172 binary64_r173 binary64_r174 binary64_r175

lemmas roundings_perfect = binary64_0 binary64_r2 binary64_r3 binary64_r73 binary64_r4 binary64_r84 binary64_r83 binary64_r85 binary64_r176 binary64_r177 binary64_r178 binary64_r20 binary64_r179 binary64_r180 binary64_r181 binary64_r182 binary64_r183 binary64_r184

lemmas roundings_dropped = binary64_r27 binary64_r34

text \<open>\<^verbatim>\<open>fit\<close> on these inputs, operation by operation.\<close>

lemma fit_sevens:
  "fit [Fin 7, Fin 7, Fin 7]
      [Fin 1, Fin 2, Fin 4]
    = Some (Fin (- (160842843834661 / 2251799813685248)))"
  by (simp add: fit_def fit_with_def Let_def nth_number_def fsub_def roundings_sevens)

lemma fit_threes:
  "fit [Fin 3, Fin 3]
      [Fin 1, Fin 2]
    = None"
  by (simp add: fit_def fit_with_def Let_def nth_number_def fsub_def roundings_threes)

lemma fit_close:
  "fit [Fin 1, Fin (67108865 / 67108864)]
      [Fin 1, Fin 2]
    = Some (Fin (- (1688849742823427 / 562949953421312)))"
  by (simp add: fit_def fit_with_def Let_def nth_number_def fsub_def roundings_close)

lemma fit_rows:
  "fit [Fin 1, Fin 2, Fin 3, Fin 4]
      [Fin 5, Fin 2, Fin (5404319552844595 / 4503599627370496), Fin (3602879701896397 / 4503599627370496)]
    = Some (Fin (2235719182812643 / 2251799813685248))"
  by (simp add: fit_def fit_with_def Let_def nth_number_def fsub_def roundings_rows)

lemma fit_overflow:
  "fit [Fin 1, Fin 2, Fin 4]
      [Fin (1243 / 8), Fin (- (377 / 8)), Fin (- (433 / 4))]
    = Some (Fin (8997264900866013 / 9007199254740992))"
  by (simp add: fit_def fit_with_def Let_def nth_number_def fsub_def roundings_overflow)

lemma fit_perfect:
  "fit [Fin 1, Fin 2]
      [Fin 1, Fin (1 / 4)]
    = Some (Fin 1)"
  by (simp add: fit_def fit_with_def Let_def nth_number_def fsub_def roundings_perfect)

section \<open>The fitter in exact arithmetic: the loops as sums, and least squares\<close>

text \<open>
  With no rounding (\<open>fit_with Fin\<close>) and finite entries, the loops of \<^verbatim>\<open>fit\<close> compute
  the sums of the specification.
\<close>

lemma fold_sums:
  "fold (\<lambda>i s. \<lparr>sumU = fadd Fin (sumU s) (Fin (f i)), sumU2 = fadd Fin (sumU2 s) (Fin (g i)),
                 sumY = fadd Fin (sumY s) (Fin (h i)), sumUY = fadd Fin (sumUY s) (Fin (k i))\<rparr>)
      [0..<n] \<lparr>sumU = Fin a, sumU2 = Fin b, sumY = Fin c, sumUY = Fin d\<rparr>
   = \<lparr>sumU = Fin (a + (\<Sum>i<n. f i)), sumU2 = Fin (b + (\<Sum>i<n. g i)),
      sumY = Fin (c + (\<Sum>i<n. h i)), sumUY = Fin (d + (\<Sum>i<n. k i))\<rparr>"
  by (induction n) simp_all

lemma fold_squares:
  "fold (\<lambda>i q. \<lparr>ssRes = fadd Fin (ssRes q) (Fin (f i)), ssTot = fadd Fin (ssTot q) (Fin (g i))\<rparr>)
      [0..<n] \<lparr>ssRes = Fin a, ssTot = Fin b\<rparr>
   = \<lparr>ssRes = Fin (a + (\<Sum>i<n. f i)), ssTot = Fin (b + (\<Sum>i<n. g i))\<rparr>"
  by (induction n) simp_all

lemma fsub_exact: "fsub Fin (Fin a) (Fin b) = Fin (a - b)"
  by (simp add: fsub_def)

lemma exact_u:
  assumes "0 \<notin> set xs"
  shows "map (\<lambda>xi. fdiv Fin (Fin 1) (fmul Fin xi xi)) (map Fin xs) = map (\<lambda>xi. Fin (1 / (xi * xi))) xs"
  using assms by (induction xs) auto

lemma exact_yPred:
  assumes "0 \<notin> set xs"
  shows "map (\<lambda>xi. fadd Fin (fdiv Fin (Fin b) (fmul Fin xi xi)) (Fin a)) (map Fin xs)
    = map (\<lambda>xi. Fin (b / (xi * xi) + a)) xs"
  using assms by (induction xs) auto

lemma fit_sums:
  assumes "0 \<notin> set xs" "length xs \<le> length ys"
  shows "fold (\<lambda>i s. \<lparr>sumU = fadd Fin (sumU s) (map (\<lambda>xi. Fin (1 / (xi * xi))) xs ! i),
                 sumU2 = fadd Fin (sumU2 s)
                   (fmul Fin (map (\<lambda>xi. Fin (1 / (xi * xi))) xs ! i)
                             (map (\<lambda>xi. Fin (1 / (xi * xi))) xs ! i)),
                 sumY = fadd Fin (sumY s) (nth_number (map Fin ys) i),
                 sumUY = fadd Fin (sumUY s)
                   (fmul Fin (map (\<lambda>xi. Fin (1 / (xi * xi))) xs ! i) (nth_number (map Fin ys) i))\<rparr>)
      [0..<length xs] \<lparr>sumU = Fin 0, sumU2 = Fin 0, sumY = Fin 0, sumUY = Fin 0\<rparr>
   = \<lparr>sumU = Fin (spec_Su xs), sumU2 = Fin (spec_Su2 xs), sumY = Fin (spec_Sy xs ys),
      sumUY = Fin (spec_Suy xs ys)\<rparr>"
proof -
  have "fold (\<lambda>i s. \<lparr>sumU = fadd Fin (sumU s) (map (\<lambda>xi. Fin (1 / (xi * xi))) xs ! i),
                 sumU2 = fadd Fin (sumU2 s)
                   (fmul Fin (map (\<lambda>xi. Fin (1 / (xi * xi))) xs ! i)
                             (map (\<lambda>xi. Fin (1 / (xi * xi))) xs ! i)),
                 sumY = fadd Fin (sumY s) (nth_number (map Fin ys) i),
                 sumUY = fadd Fin (sumUY s)
                   (fmul Fin (map (\<lambda>xi. Fin (1 / (xi * xi))) xs ! i) (nth_number (map Fin ys) i))\<rparr>)
      [0..<length xs] \<lparr>sumU = Fin 0, sumU2 = Fin 0, sumY = Fin 0, sumUY = Fin 0\<rparr>
    = fold (\<lambda>i s. \<lparr>sumU = fadd Fin (sumU s) (Fin (spec_u xs i)),
                 sumU2 = fadd Fin (sumU2 s) (Fin ((spec_u xs i) ^ 2)),
                 sumY = fadd Fin (sumY s) (Fin (ys ! i)),
                 sumUY = fadd Fin (sumUY s) (Fin (spec_u xs i * ys ! i))\<rparr>)
      [0..<length xs] \<lparr>sumU = Fin 0, sumU2 = Fin 0, sumY = Fin 0, sumUY = Fin 0\<rparr>"
    using assms(2)
    by (intro fold_cong refl) (simp_all add: nth_number_def spec_u_def power2_eq_square)
  then show ?thesis
    by (simp only: fold_sums) (simp add: spec_Su_def spec_Su2_def spec_Sy_def spec_Suy_def)
qed

lemma fit_squares:
  assumes "length xs \<le> length ys"
  shows "fold (\<lambda>i q.
        \<lparr>ssRes = fadd Fin (ssRes q)
           (fmul Fin (fsub Fin (nth_number (map Fin ys) i) (map (\<lambda>xi. Fin (b / (xi * xi) + a)) xs ! i))
                     (fsub Fin (nth_number (map Fin ys) i) (map (\<lambda>xi. Fin (b / (xi * xi) + a)) xs ! i))),
         ssTot = fadd Fin (ssTot q)
           (fmul Fin (fsub Fin (nth_number (map Fin ys) i) (Fin m))
                     (fsub Fin (nth_number (map Fin ys) i) (Fin m)))\<rparr>)
      [0..<length xs] \<lparr>ssRes = Fin 0, ssTot = Fin 0\<rparr>
   = \<lparr>ssRes = Fin (\<Sum>i<length xs. (ys ! i - (b / (xs ! i) ^ 2 + a)) ^ 2),
      ssTot = Fin (\<Sum>i<length xs. (ys ! i - m) ^ 2)\<rparr>"
proof -
  have "fold (\<lambda>i q.
        \<lparr>ssRes = fadd Fin (ssRes q)
           (fmul Fin (fsub Fin (nth_number (map Fin ys) i) (map (\<lambda>xi. Fin (b / (xi * xi) + a)) xs ! i))
                     (fsub Fin (nth_number (map Fin ys) i) (map (\<lambda>xi. Fin (b / (xi * xi) + a)) xs ! i))),
         ssTot = fadd Fin (ssTot q)
           (fmul Fin (fsub Fin (nth_number (map Fin ys) i) (Fin m))
                     (fsub Fin (nth_number (map Fin ys) i) (Fin m)))\<rparr>)
      [0..<length xs] \<lparr>ssRes = Fin 0, ssTot = Fin 0\<rparr>
    = fold (\<lambda>i q. \<lparr>ssRes = fadd Fin (ssRes q) (Fin ((ys ! i - (b / (xs ! i) ^ 2 + a)) ^ 2)),
                   ssTot = fadd Fin (ssTot q) (Fin ((ys ! i - m) ^ 2))\<rparr>)
      [0..<length xs] \<lparr>ssRes = Fin 0, ssTot = Fin 0\<rparr>"
    using assms
    by (intro fold_cong refl) (simp_all add: nth_number_def fsub_exact power2_eq_square)
  then show ?thesis by (simp only: fold_squares) simp
qed

text \<open>
  On an \<open>x\<close> without a zero and a \<open>y\<close> at least as long, \<^verbatim>\<open>fit\<close> in exact arithmetic
  is the \<open>R\<^sup>2\<close> of the specification.
\<close>

lemma fit_with_exact:
  assumes "0 \<notin> set xs" "length xs \<le> length ys"
  shows "fit_with Fin (map Fin xs) (map Fin ys) = map_option Fin (spec_fit xs ys)"
proof (cases "\<bar>spec_det xs\<bar> < 1 / 10 ^ 20")
  case True
  then show ?thesis
    unfolding fit_with_def Let_def length_map exact_u [OF assms(1)] fit_sums [OF assms]
    by (simp add: spec_fit_def spec_det_def fsub_exact power2_eq_square)
next
  case False
  then have d: "spec_det xs \<noteq> 0" by auto
  have n: "real (length xs) \<noteq> 0"
  proof
    assume "real (length xs) = 0"
    then have "spec_det xs = 0" by (simp add: spec_det_def spec_Su_def spec_Su2_def)
    with d show False by simp
  qed
  have a: "fdiv Fin (fsub Fin (fmul Fin (Fin (spec_Sy xs ys)) (Fin (spec_Su2 xs)))
                (fmul Fin (Fin (spec_Su xs)) (Fin (spec_Suy xs ys))))
            (fsub Fin (fmul Fin (Fin (real (length xs))) (Fin (spec_Su2 xs)))
                (fmul Fin (Fin (spec_Su xs)) (Fin (spec_Su xs))))
      = Fin (spec_a xs ys)"
    using d by (simp add: fsub_exact spec_a_def spec_det_def power2_eq_square)
  have b: "fdiv Fin (fsub Fin (fmul Fin (Fin (real (length xs))) (Fin (spec_Suy xs ys)))
                (fmul Fin (Fin (spec_Su xs)) (Fin (spec_Sy xs ys))))
            (fsub Fin (fmul Fin (Fin (real (length xs))) (Fin (spec_Su2 xs)))
                (fmul Fin (Fin (spec_Su xs)) (Fin (spec_Su xs))))
      = Fin (spec_b xs ys)"
    using d by (simp add: fsub_exact spec_b_def spec_det_def power2_eq_square)
  have m: "fdiv Fin (Fin (spec_Sy xs ys)) (Fin (real (length xs)))
      = Fin (spec_Sy xs ys / real (length xs))"
    using n by simp
  show ?thesis
    unfolding fit_with_def Let_def length_map exact_u [OF assms(1)] fit_sums [OF assms]
      sums.simps a b m exact_yPred [OF assms(1)] fit_squares [OF assms(2)] squares.simps
    using False
    by (simp add: spec_fit_def spec_det_def spec_SSres_def spec_SStot_def fsub_exact
        power2_eq_square)
qed

lemma sum_residual:
  "(\<Sum>i<n. Y i - (b * U i + a)) = (\<Sum>i<n. Y i) - b * (\<Sum>i<n. U i) - real n * (a::real)"
  by (simp add: sum_subtractf sum.distrib sum_distrib_left)

lemma sum_residual_u:
  "(\<Sum>i<n. (Y i - (b * U i + a)) * U i)
    = (\<Sum>i<n. U i * Y i) - b * (\<Sum>i<n. (U i) ^ 2) - (a::real) * (\<Sum>i<n. U i)"
  by (simp add: algebra_simps power2_eq_square sum_subtractf sum.distrib sum_distrib_left)

lemma total_decomposition:
  fixes a b m :: real
  assumes e0: "(\<Sum>i<n. Y i - (b * U i + a)) = 0"
    and eu: "(\<Sum>i<n. (Y i - (b * U i + a)) * U i) = 0"
  shows "(\<Sum>i<n. (Y i - m) ^ 2)
    = (\<Sum>i<n. (Y i - (b * U i + a)) ^ 2) + (\<Sum>i<n. (b * U i + a - m) ^ 2)"
proof -
  have "(Y i - m) ^ 2 = (Y i - (b * U i + a)) ^ 2 + (b * U i + a - m) ^ 2
      + (2 * b * ((Y i - (b * U i + a)) * U i) + 2 * (a - m) * (Y i - (b * U i + a)))" for i
    by (simp add: power2_eq_square algebra_simps)
  then have "(\<Sum>i<n. (Y i - m) ^ 2)
      = (\<Sum>i<n. (Y i - (b * U i + a)) ^ 2 + (b * U i + a - m) ^ 2
          + (2 * b * ((Y i - (b * U i + a)) * U i) + 2 * (a - m) * (Y i - (b * U i + a))))"
    by simp
  also have "\<dots> = (\<Sum>i<n. (Y i - (b * U i + a)) ^ 2) + (\<Sum>i<n. (b * U i + a - m) ^ 2)
      + (2 * b * (\<Sum>i<n. (Y i - (b * U i + a)) * U i)
          + 2 * (a - m) * (\<Sum>i<n. Y i - (b * U i + a)))"
    by (simp only: sum.distrib sum_distrib_left)
  finally show ?thesis by (simp add: e0 eu)
qed

lemma normal_equations:
  fixes n :: real
  assumes "det \<noteq> 0" "det = n * Su2 - Su ^ 2"
    "a = (Sy * Su2 - Su * Suy) / det" "b = (n * Suy - Su * Sy) / det"
  shows "Sy - b * Su - n * a = 0" "Suy - b * Su2 - a * Su = 0"
proof -
  have ad: "a * det = Sy * Su2 - Su * Suy" and bd: "b * det = n * Suy - Su * Sy"
    using assms(1) by (simp_all add: assms(3,4))
  have "(Sy - b * Su - n * a) * det = Sy * det - (b * det) * Su - n * (a * det)"
    by (simp add: algebra_simps)
  also have "\<dots> = 0"
    unfolding ad bd by (simp add: assms(2) power2_eq_square algebra_simps)
  finally show "Sy - b * Su - n * a = 0" using assms(1) by simp
  have "(Suy - b * Su2 - a * Su) * det = Suy * det - (b * det) * Su2 - (a * det) * Su"
    by (simp add: algebra_simps)
  also have "\<dots> = 0"
    unfolding ad bd by (simp add: assms(2) power2_eq_square algebra_simps)
  finally show "Suy - b * Su2 - a * Su = 0" using assms(1) by simp
qed

lemma spec_SSres_le_SStot:
  assumes "spec_det x \<noteq> 0"
  shows "spec_SSres x y \<le> spec_SStot x y"
proof -
  let ?n = "length x"
  let ?U = "spec_u x" and ?Y = "\<lambda>i. y ! i"
  let ?a = "spec_a x y" and ?b = "spec_b x y"
  note ne = normal_equations [OF assms spec_det_def spec_a_def spec_b_def, of y]
  have e0: "(\<Sum>i<?n. ?Y i - (?b * ?U i + ?a)) = 0"
    using ne(1) by (simp only: sum_residual spec_Sy_def spec_Su_def)
  have eu: "(\<Sum>i<?n. (?Y i - (?b * ?U i + ?a)) * ?U i) = 0"
    using ne(2) by (simp only: sum_residual_u spec_Suy_def spec_Su2_def spec_Su_def)
  have "spec_SStot x y = (\<Sum>i<?n. (?Y i - (?b * ?U i + ?a)) ^ 2)
      + (\<Sum>i<?n. (?b * ?U i + ?a - spec_Sy x y / real ?n) ^ 2)"
    unfolding spec_SStot_def by (rule total_decomposition [OF e0 eu])
  moreover have "(\<Sum>i<?n. (?Y i - (?b * ?U i + ?a)) ^ 2) = spec_SSres x y"
    by (simp add: spec_SSres_def spec_u_def)
  moreover have "0 \<le> (\<Sum>i<?n. (?b * ?U i + ?a - spec_Sy x y / real ?n) ^ 2)"
    by (rule sum_nonneg) simp
  ultimately show ?thesis by linarith
qed

lemma spec_SSres_nonneg: "0 \<le> spec_SSres x y"
  unfolding spec_SSres_def by (rule sum_nonneg) simp

lemma spec_fit_range:
  assumes "spec_fit x y = Some r"
  shows "0 \<le> r \<and> r \<le> 1"
proof -
  have det: "spec_det x \<noteq> 0"
    using assms by (auto simp: spec_fit_def split: if_splits)
  show ?thesis
  proof (cases "spec_SStot x y > 0")
    case True
    then have r: "r = 1 - spec_SSres x y / spec_SStot x y"
      using assms by (auto simp: spec_fit_def split: if_splits)
    have "0 \<le> spec_SSres x y / spec_SStot x y"
      using True spec_SSres_nonneg [of x y] by simp
    moreover have "spec_SSres x y / spec_SStot x y \<le> 1"
      using True spec_SSres_le_SStot [OF det, of y] by simp
    ultimately show ?thesis using r by simp
  next
    case False
    then have "r = 0" using assms by (auto simp: spec_fit_def split: if_splits)
    then show ?thesis by simp
  qed
qed

section \<open>The fitter in binary64: the result is never above 1\<close>

lemma round_even_ge: "of_int n \<le> t \<Longrightarrow> n \<le> round_even t"
proof -
  assume "of_int n \<le> t"
  then have "n \<le> \<lfloor>t\<rfloor>" by (simp add: le_floor_iff)
  then show ?thesis by (simp add: round_even_def Let_def)
qed

lemma round_even_le: "t \<le> of_int n \<Longrightarrow> round_even t \<le> n"
proof (cases "t = of_int n")
  case True
  then show ?thesis by (simp add: round_even_def Let_def)
next
  case False
  assume "t \<le> of_int n"
  with False have "t < of_int n" by simp
  then have "\<lfloor>t\<rfloor> < n" by (simp add: floor_less_iff)
  then show ?thesis by (simp add: round_even_def Let_def)
qed

text \<open>Rounding keeps the sign, and rounds nothing that is at most \<open>1\<close> to above \<open>1\<close>.\<close>

lemma binary64_nonneg:
  assumes "0 \<le> x"
  shows "binary64 x \<in> insert PosInf (Fin ` {0..})"
proof (cases "x = 0")
  case True
  then show ?thesis by (simp add: binary64_def)
next
  case False
  let ?q = "(2::real) powi (max (exponent x) (- 1022) - 52)"
  have q: "0 < ?q" by simp
  then have "of_int 0 \<le> x / ?q" using assms by simp
  then have "0 \<le> round_even (x / ?q)" by (rule round_even_ge)
  then have "0 \<le> of_int (round_even (x / ?q)) * ?q" using q by simp
  then show ?thesis using False assms by (simp add: binary64_def Let_def)
qed

lemma binary64_nonpos:
  assumes "x \<le> 0"
  shows "binary64 x \<in> insert NegInf (Fin ` {..0})"
proof (cases "x = 0")
  case True
  then show ?thesis by (simp add: binary64_def)
next
  case False
  let ?q = "(2::real) powi (max (exponent x) (- 1022) - 52)"
  have q: "0 < ?q" by simp
  then have "x / ?q \<le> of_int 0" using assms by (simp add: divide_le_0_iff)
  then have "round_even (x / ?q) \<le> 0" by (rule round_even_le)
  then have "of_int (round_even (x / ?q)) * ?q \<le> 0" using q by (simp add: mult_le_0_iff)
  then show ?thesis using False assms by (simp add: binary64_def Let_def)
qed

lemma exponent_le_zero:
  assumes "\<bar>x\<bar> \<le> 1"
  shows "exponent x \<le> 0"
proof (cases "\<bar>x\<bar> = 1")
  case True
  have "bitlen 1 \<le> int 1" by (simp only: bitlen_le_iff_power) simp
  then show ?thesis using True by (simp add: exponent_def)
next
  case False
  then show ?thesis using assms by (simp add: exponent_def bitlen_nonneg)
qed

lemma binary64_le_one:
  assumes "x \<le> 1"
  shows "binary64 x \<in> insert NegInf (Fin ` {..1})"
proof (cases "0 < x")
  case False
  then have "binary64 x \<in> insert NegInf (Fin ` {..0})" by (intro binary64_nonpos) simp
  then show ?thesis by auto
next
  case True
  define e where "e = max (exponent x) (- 1022)"
  have e: "e \<le> 0" using exponent_le_zero [of x] True assms by (simp add: e_def)
  let ?q = "(2::real) powi (e - 52)"
  have q: "0 < ?q" by simp
  have p: "1 / ?q = of_int (2 ^ nat (52 - e))"
    using e by (simp add: power_int_def field_simps)
  have "x / ?q \<le> 1 / ?q" using assms q by (simp add: divide_right_mono)
  then have "round_even (x / ?q) \<le> 2 ^ nat (52 - e)" unfolding p by (rule round_even_le)
  then have "(of_int (round_even (x / ?q)) :: real) \<le> of_int (2 ^ nat (52 - e))"
    by (simp only: of_int_le_iff)
  then have "of_int (round_even (x / ?q)) * ?q \<le> 1 / ?q * ?q"
    unfolding p [symmetric] using q by (intro mult_right_mono) simp_all
  then have hi: "of_int (round_even (x / ?q)) * ?q \<le> 1" using q by simp
  have "of_int 0 \<le> x / ?q" using True q by simp
  then have "0 \<le> round_even (x / ?q)" by (rule round_even_ge)
  then have lo: "0 \<le> of_int (round_even (x / ?q)) * ?q" using q by simp
  have "\<bar>of_int (round_even (x / ?q)) * ?q\<bar> \<le> 1" using lo hi by simp
  also have "(1::real) < 2 ^ 1024" by simp
  finally have "\<not> 2 ^ 1024 \<le> \<bar>of_int (round_even (x / ?q)) * ?q\<bar>" by simp
  then show ?thesis using True hi by (simp add: binary64_def Let_def e_def)
qed

text \<open>
  A sum of squares is a number that is not negative, \<open>+\<infinity>\<close> or \<open>NaN\<close>, and so is its
  quotient by a positive number.
\<close>

lemma fmul_square: "fmul binary64 d d \<in> insert NaN (insert PosInf (Fin ` {0..}))"
proof (cases d)
  case (Fin a)
  then show ?thesis using binary64_nonneg [of "a * a"] by auto
qed (simp_all add: infinity_def)

lemma fadd_nonneg:
  assumes "a \<in> insert NaN (insert PosInf (Fin ` {0..}))"
    "b \<in> insert NaN (insert PosInf (Fin ` {0..}))"
  shows "fadd binary64 a b \<in> insert NaN (insert PosInf (Fin ` {0..}))"
proof (cases a)
  case (Fin u)
  show ?thesis
  proof (cases b)
    case (Fin v)
    then show ?thesis using \<open>a = Fin u\<close> assms binary64_nonneg [of "u + v"] by auto
  qed (use \<open>a = Fin u\<close> assms in simp_all)
next
  case PosInf
  then show ?thesis using assms by (cases b) simp_all
next
  case NegInf
  then show ?thesis using assms by auto
next
  case NaN
  then show ?thesis by simp
qed

lemma fold_ssRes:
  assumes "ssRes q0 \<in> insert NaN (insert PosInf (Fin ` {0..}))"
  shows "ssRes (fold (\<lambda>i q. \<lparr>ssRes = fadd binary64 (ssRes q) (fmul binary64 (d i) (d i)),
                             ssTot = h i q\<rparr>) ns q0)
    \<in> insert NaN (insert PosInf (Fin ` {0..}))"
  using assms
proof (induction ns arbitrary: q0)
  case Nil
  then show ?case by simp
next
  case (Cons i ns)
  show ?case
    unfolding fold_simps
    by (rule Cons.IH) (simp only: squares.simps fadd_nonneg [OF Cons.prems fmul_square])
qed

lemma fdiv_nonneg:
  assumes "a \<in> insert NaN (insert PosInf (Fin ` {0..}))" "flt (Fin 0) t"
  shows "fdiv binary64 a t \<in> insert NaN (insert PosInf (Fin ` {0..}))"
proof (cases t)
  case (Fin v)
  then have v: "0 < v" using assms(2) by simp
  show ?thesis
  proof (cases a)
    case (Fin u)
    then have "0 \<le> u / v" using assms(1) v by auto
    then show ?thesis using \<open>a = Fin u\<close> \<open>t = Fin v\<close> v binary64_nonneg [of "u / v"] by auto
  next
    case PosInf
    then show ?thesis using \<open>t = Fin v\<close> v by (simp add: infinity_def)
  next
    case NegInf
    then show ?thesis using assms(1) by auto
  next
    case NaN
    then show ?thesis by simp
  qed
next
  case PosInf
  then show ?thesis by (cases a) simp_all
next
  case NegInf
  then show ?thesis using assms(2) by simp
next
  case NaN
  then show ?thesis using assms(2) by simp
qed

lemma one_minus_nonneg:
  assumes "a \<in> insert NaN (insert PosInf (Fin ` {0..}))"
  shows "fsub binary64 (Fin 1) a \<in> insert NaN (insert NegInf (Fin ` {..1}))"
proof (cases a)
  case (Fin u)
  then have "1 + - u \<le> 1" using assms by auto
  then show ?thesis using Fin binary64_le_one [of "1 + - u"] by (auto simp: fsub_def)
next
  case NegInf
  then show ?thesis using assms by auto
qed (simp_all add: fsub_def)

text \<open>
  Whatever the input, what \<^verbatim>\<open>fit\<close> returns is \<^verbatim>\<open>null\<close>, \<open>NaN\<close>, \<open>-\<infinity>\<close> or a number
  that is at most \<open>1\<close>.
\<close>

lemma fit_shape:
  assumes "fit x y = Some r"
  shows "\<exists>d h. r =
    (if flt (Fin 0)
         (ssTot (fold (\<lambda>i q. \<lparr>ssRes = fadd binary64 (ssRes q) (fmul binary64 (d i) (d i)),
                                  ssTot = h i q\<rparr>)
                   [0..<length x] \<lparr>ssRes = Fin 0, ssTot = Fin 0\<rparr>))
     then fsub binary64 (Fin 1)
         (fdiv binary64
           (ssRes (fold (\<lambda>i q. \<lparr>ssRes = fadd binary64 (ssRes q) (fmul binary64 (d i) (d i)),
                                    ssTot = h i q\<rparr>)
                     [0..<length x] \<lparr>ssRes = Fin 0, ssTot = Fin 0\<rparr>))
           (ssTot (fold (\<lambda>i q. \<lparr>ssRes = fadd binary64 (ssRes q) (fmul binary64 (d i) (d i)),
                                    ssTot = h i q\<rparr>)
                     [0..<length x] \<lparr>ssRes = Fin 0, ssTot = Fin 0\<rparr>)))
     else Fin 0)"
  using assms unfolding fit_def fit_with_def Let_def
  apply (split if_split_asm)
   apply (simp only: option.distinct)
  apply (simp only: option.inject)
  apply (rule exI, rule exI, erule sym)
  done

lemma fit_le_one:
  assumes "fit x y = Some r"
  shows "r \<in> insert NaN (insert NegInf (Fin ` {..1}))"
proof -
  have z: "ssRes \<lparr>ssRes = Fin 0, ssTot = Fin 0\<rparr> \<in> insert NaN (insert PosInf (Fin ` {0..}))"
    by simp
  from fit_shape [OF assms] obtain d h where r: "r =
    (if flt (Fin 0)
         (ssTot (fold (\<lambda>i q. \<lparr>ssRes = fadd binary64 (ssRes q) (fmul binary64 (d i) (d i)),
                                  ssTot = h i q\<rparr>)
                   [0..<length x] \<lparr>ssRes = Fin 0, ssTot = Fin 0\<rparr>))
     then fsub binary64 (Fin 1)
         (fdiv binary64
           (ssRes (fold (\<lambda>i q. \<lparr>ssRes = fadd binary64 (ssRes q) (fmul binary64 (d i) (d i)),
                                    ssTot = h i q\<rparr>)
                     [0..<length x] \<lparr>ssRes = Fin 0, ssTot = Fin 0\<rparr>))
           (ssTot (fold (\<lambda>i q. \<lparr>ssRes = fadd binary64 (ssRes q) (fmul binary64 (d i) (d i)),
                                    ssTot = h i q\<rparr>)
                     [0..<length x] \<lparr>ssRes = Fin 0, ssTot = Fin 0\<rparr>)))
     else Fin 0)"
    by blast
  show ?thesis
  proof (cases "flt (Fin 0)
         (ssTot (fold (\<lambda>i q. \<lparr>ssRes = fadd binary64 (ssRes q) (fmul binary64 (d i) (d i)),
                                  ssTot = h i q\<rparr>)
                   [0..<length x] \<lparr>ssRes = Fin 0, ssTot = Fin 0\<rparr>))")
    case True
    show ?thesis
      unfolding r if_P [OF True]
      by (rule one_minus_nonneg [OF fdiv_nonneg [OF fold_ssRes [OF z] True]])
  next
    case False
    then show ?thesis unfolding r by simp
  qed
qed

section \<open>The transforms: ordering\<close>


lemma clamp999_lt1: "max 0 (min 0.999 (r::real)) < 1"
  by (auto simp: min_def max_def)

lemma clamp999_bounds: "0 \<le> max 0 (min 0.999 (r::real)) \<and> max 0 (min 0.999 r) \<le> 0.999"
  by (auto simp: min_def max_def)








lemma floor_pos: "0 < max (1 / 10 ^ 10) (1 - max 0 (min 0.999 (r::real)))"
  by (simp add: max_def)



















text \<open>
  Just below its ceiling the transform \<^verbatim>\<open>exp(1/(1-R^2))\<close> is far above the value
  \<open>10\<^sup>1\<^sup>0\<^sup>0\<close> that it takes from the ceiling on.
\<close>

lemma exp_ge_two_power: "(2::real) ^ n \<le> exp (real n)"
proof -
  have "(2::real) \<le> exp 1" using exp_ge_add_one_self [of 1] by simp
  then have "(2::real) ^ n \<le> exp 1 ^ n" by (intro power_mono) simp_all
  also have "\<dots> = exp (real n)" by (simp add: exp_of_nat_mult [symmetric])
  finally show ?thesis .
qed

lemma ExpReciprocalComplement_drop:
  "TRANSFORMS ExpReciprocalComplement 0.999 < TRANSFORMS ExpReciprocalComplement 0.998"
proof -
  have "(10::real) ^ 100 < 2 ^ 500" by simp
  also have "\<dots> \<le> exp (real 500)" by (rule exp_ge_two_power)
  finally show ?thesis by simp
qed




section \<open>The fitter: degenerate inputs and the range of the result\<close>

lemma det_all_equal:
  assumes "\<forall>xi\<in>set x. xi = c"
  shows "spec_det x = 0"
proof -
  have u: "spec_u x i = 1 / c ^ 2" if "i < length x" for i
    using assms that nth_mem [of i x] by (auto simp: spec_u_def)
  have "spec_Su x = real (length x) * (1 / c ^ 2)"
    unfolding spec_Su_def using u by simp
  moreover have "spec_Su2 x = real (length x) * (1 / c ^ 2) ^ 2"
    unfolding spec_Su2_def using u by simp
  ultimately show ?thesis by (simp add: spec_det_def power2_eq_square)
qed

lemma TRANSFORMS_get_empty: "TRANSFORMS_get [] = Undefined"
  by (simp add: TRANSFORMS_get_def TRANSFORMS_keys_def Object_prototype_keys_def ascii_def)

lemma fit_fixed_fit: "fit_fixed x y = fit x y"
  by (simp add: fit_def fit_fixed_def fit_with_def fit_fixed_with_def)

text \<open>
  In exact arithmetic, on an \<open>x\<close> without a zero, \<^verbatim>\<open>fit\<close> returns \<^verbatim>\<open>null\<close> exactly
  when \<open>|n Su2 - Su\<^sup>2| < 10\<^sup>-\<^sup>2\<^sup>0\<close>, and it does so whenever all the \<open>x\<close> are equal.
\<close>

lemma exact_fit_None_iff:
  assumes "0 \<notin> set xs" "length xs \<le> length ys"
  shows "fit_with Fin (map Fin xs) (map Fin ys) = None \<longleftrightarrow> \<bar>spec_det xs\<bar> < 1 / 10 ^ 20"
  by (simp add: fit_with_exact [OF assms] spec_fit_def)

lemma exact_fit_all_equal:
  assumes "0 \<notin> set xs" "length xs \<le> length ys" "\<forall>xi\<in>set xs. xi = c"
  shows "fit_with Fin (map Fin xs) (map Fin ys) = None"
  using det_all_equal [OF assms(3)] by (simp add: exact_fit_None_iff [OF assms(1,2)])

text \<open>
  When \<^verbatim>\<open>fit\<close> returns \<^verbatim>\<open>null\<close> on the rows that passed the filter, the fixed
  handler answers 422 with the error payload, and so does the selectable handler once
  the key has passed its check.
\<close>

lemma fit_failed_422:
  assumes "http_method req \<noteq> ascii ''OPTIONS''" "json_body req = Some b"
    "rows b = Some (JArr rs)" "filter_rows pf rs [] [] = Inr (x, y)" "2 \<le> length x"
    "fit x y = None"
  shows "onRequestPost_fixed pf req = Inr \<lparr>status = 422, payload = Error FitFailed\<rparr>"
    and "transformKey b = Some k \<Longrightarrow> is_function (TRANSFORMS_get k)
      \<Longrightarrow> onRequestPost pf req = Inr \<lparr>status = 422, payload = Error FitFailed\<rparr>"
proof -
  show "onRequestPost_fixed pf req = Inr \<lparr>status = 422, payload = Error FitFailed\<rparr>"
    using assms by (simp add: onRequestPost_fixed_def fit_fixed_fit)
  assume k: "transformKey b = Some k" "is_function (TRANSFORMS_get k)"
  then have "k \<noteq> []" using TRANSFORMS_get_empty by auto
  with assms k show "onRequestPost pf req = Inr \<lparr>status = 422, payload = Error FitFailed\<rparr>"
    by (simp add: onRequestPost_def)
qed

text \<open>
  In binary64 the test sees the rounded determinant. For \<open>x = 3, 3\<close> it is \<open>0\<close>, and
  the handlers answer 422.
\<close>

lemma filter_rows_threes:
  "filter_rows pf [JArr [JNum 3, JNum 1], JArr [JNum 3, JNum 2]] [] []
    = Inr ([Fin 3, Fin 3], [Fin 1, Fin 2])"
  by (simp add: parseFloat_def parseFloat_json_def roundings_threes)

lemma threes_422:
  "onRequestPost_fixed pf
        \<lparr>http_method = ascii ''POST'',
         json_body = Some \<lparr>rows = Some (JArr [JArr [JNum 3, JNum 1], JArr [JNum 3, JNum 2]]),
                           transformKey = tk\<rparr>\<rparr>
      = Inr \<lparr>status = 422, payload = Error FitFailed\<rparr>"
  "onRequestPost pf
        \<lparr>http_method = ascii ''POST'',
         json_body = Some \<lparr>rows = Some (JArr [JArr [JNum 3, JNum 1], JArr [JNum 3, JNum 2]]),
                           transformKey = Some (ascii ''R'' @ [0xB2, 0xB2])\<rparr>\<rparr>
      = Inr \<lparr>status = 422, payload = Error FitFailed\<rparr>"
proof -
  have m: "ascii ''POST'' \<noteq> ascii ''OPTIONS''" "ascii ''R'' @ [0xB2, 0xB2] \<noteq> []"
    by (simp_all add: ascii_def)
  have k: "is_function (TRANSFORMS_get (ascii ''R'' @ [0xB2, 0xB2]))"
    by (simp add: TRANSFORMS_get_def TRANSFORMS_keys_def Object_prototype_keys_def ascii_def)
  show "onRequestPost_fixed pf
        \<lparr>http_method = ascii ''POST'',
         json_body = Some \<lparr>rows = Some (JArr [JArr [JNum 3, JNum 1], JArr [JNum 3, JNum 2]]),
                           transformKey = tk\<rparr>\<rparr>
      = Inr \<lparr>status = 422, payload = Error FitFailed\<rparr>"
    by (simp add: onRequestPost_fixed_def filter_rows_threes fit_fixed_fit fit_threes m
        del: filter_rows.simps)
  show "onRequestPost pf
        \<lparr>http_method = ascii ''POST'',
         json_body = Some \<lparr>rows = Some (JArr [JArr [JNum 3, JNum 1], JArr [JNum 3, JNum 2]]),
                           transformKey = Some (ascii ''R'' @ [0xB2, 0xB2])\<rparr>\<rparr>
      = Inr \<lparr>status = 422, payload = Error FitFailed\<rparr>"
    using k by (simp add: onRequestPost_def filter_rows_threes fit_threes m
        del: filter_rows.simps)
qed

lemma filter_rows_sevens:
  "filter_rows pf [JArr [JNum 7, JNum 1], JArr [JNum 7, JNum 2], JArr [JNum 7, JNum 4]] [] []
    = Inr ([Fin 7, Fin 7, Fin 7], [Fin 1, Fin 2, Fin 4])"
  by (simp add: parseFloat_def parseFloat_json_def roundings_sevens)

lemma toFixed6_0: "toFixed6 0 = 0"
  by (simp add: toFixed6_def)

text \<open>
  C3 (the code at a failing input). The rows \<open>[7,1], [7,2], [7,4]\<close> have all their
  \<open>x\<close> equal: the determinant \<open>n Su2 - Su\<^sup>2\<close> is \<open>0\<close>, and in exact arithmetic
  \<^verbatim>\<open>fit\<close> returns \<^verbatim>\<open>null\<close>. In binary64 \<open>1/49\<close> is rounded, the computed determinant
  is not \<open>0\<close> but about \<open>-8.7 10\<^sup>-\<^sup>1\<^sup>9\<close>, above the threshold \<open>10\<^sup>-\<^sup>2\<^sup>0\<close> in absolute value:
  \<^verbatim>\<open>fit\<close> divides by it and returns \<open>R\<^sup>2 = -0.0714...\<close>, and both handlers answer 200
  with a \<^verbatim>\<open>mainResult\<close> (here \<open>0\<close>) and not 422.
\<close>

theorem equal_x_not_degenerate:
  "spec_det [7, 7, 7] = 0
    \<and> fit_with Fin [Fin 7, Fin 7, Fin 7] [Fin 1, Fin 2, Fin 4] = None
    \<and> fit [Fin 7, Fin 7, Fin 7] [Fin 1, Fin 2, Fin 4]
        = Some (Fin (- (160842843834661 / 2251799813685248)))
    \<and> onRequestPost pf
        \<lparr>http_method = ascii ''POST'',
         json_body = Some \<lparr>rows = Some (JArr [JArr [JNum 7, JNum 1], JArr [JNum 7, JNum 2],
                                                JArr [JNum 7, JNum 4]]),
                           transformKey = Some (ascii ''R'' @ [0xB2, 0xB2])\<rparr>\<rparr>
      = Inr \<lparr>status = 200, payload = MainResult (Number (Fin 0))\<rparr>
    \<and> onRequestPost_fixed pf
        \<lparr>http_method = ascii ''POST'',
         json_body = Some \<lparr>rows = Some (JArr [JArr [JNum 7, JNum 1], JArr [JNum 7, JNum 2],
                                                JArr [JNum 7, JNum 4]]),
                           transformKey = tk\<rparr>\<rparr>
      = Inr \<lparr>status = 200, payload = MainResult (Number (Fin 0))\<rparr>"
proof -
  have d: "spec_det [7, 7, 7] = 0" by (rule det_all_equal [where c = 7]) simp
  have "fit_with Fin (map Fin [7, 7, 7]) (map Fin [1, 2, 4]) = None"
    by (rule exact_fit_all_equal [where c = 7]) simp_all
  then have e: "fit_with Fin [Fin 7, Fin 7, Fin 7] [Fin 1, Fin 2, Fin 4] = None" by simp
  have m: "ascii ''POST'' \<noteq> ascii ''OPTIONS''" "ascii ''R'' @ [0xB2, 0xB2] \<noteq> []"
    by (simp_all add: ascii_def)
  have k: "TRANSFORMS_get (ascii ''R'' @ [0xB2, 0xB2]) = TableEntry Square"
    by (simp add: TRANSFORMS_get_def TRANSFORMS_keys_def Object_prototype_keys_def ascii_def)
  have s: "onRequestPost pf
        \<lparr>http_method = ascii ''POST'',
         json_body = Some \<lparr>rows = Some (JArr [JArr [JNum 7, JNum 1], JArr [JNum 7, JNum 2],
                                                JArr [JNum 7, JNum 4]]),
                           transformKey = Some (ascii ''R'' @ [0xB2, 0xB2])\<rparr>\<rparr>
      = Inr \<lparr>status = 200, payload = MainResult (Number (Fin 0))\<rparr>"
    by (simp add: onRequestPost_def filter_rows_sevens fit_sevens m k to_number_def toFixed6_0
        del: filter_rows.simps)
  have f: "onRequestPost_fixed pf
        \<lparr>http_method = ascii ''POST'',
         json_body = Some \<lparr>rows = Some (JArr [JArr [JNum 7, JNum 1], JArr [JNum 7, JNum 2],
                                                JArr [JNum 7, JNum 4]]),
                           transformKey = tk\<rparr>\<rparr>
      = Inr \<lparr>status = 200, payload = MainResult (Number (Fin 0))\<rparr>"
    by (simp add: onRequestPost_fixed_def filter_rows_sevens fit_fixed_fit fit_sevens m
        transform_def to_number_def toFixed6_0 del: filter_rows.simps)
  from d e fit_sevens s f show ?thesis by (simp only: simp_thms)
qed

lemma exact_fit_range:
  assumes "0 \<notin> set xs" "length xs \<le> length ys"
    "fit_with Fin (map Fin xs) (map Fin ys) = Some r"
  shows "\<exists>v. r = Fin v \<and> 0 \<le> v \<and> v \<le> 1
    \<and> v = (if spec_SStot xs ys > 0 then 1 - spec_SSres xs ys / spec_SStot xs ys else 0)"
proof -
  from assms(3) obtain v where v: "spec_fit xs ys = Some v" "r = Fin v"
    unfolding fit_with_exact [OF assms(1,2)] by auto
  from v(1) have "v = (if spec_SStot xs ys > 0 then 1 - spec_SSres xs ys / spec_SStot xs ys else 0)"
    by (auto simp: spec_fit_def split: if_splits)
  with v spec_fit_range [OF v(1)] show ?thesis by simp
qed

lemma exact_fit_close: "fit_with Fin [Fin 1, Fin (1 + 1 / 2 ^ 26)] [Fin 1, Fin 2] = Some (Fin 1)"
  by (simp add: fit_with_def Let_def nth_number_def fsub_def)

text \<open>
  C4. Whatever \<^verbatim>\<open>fit\<close> returns that is a number is at most \<open>1\<close>: in binary64 on every
  input (the result can also be \<open>NaN\<close> or \<open>-\<infinity>\<close>), and in exact arithmetic on a valid
  input (lists of equal length, at least two points, every \<open>x\<close> positive), where it is
  the value \<open>1 - SSres/SStot\<close> (\<open>0\<close> when \<open>SStot\<close> is not positive). No clamp is
  applied to it, and it can be negative: on \<open>x = 1, 1 + 2\<^sup>-\<^sup>2\<^sup>6\<close> and \<open>y = 1, 2\<close>, where
  exact arithmetic gives \<open>R\<^sup>2 = 1\<close>, the code returns \<open>-2.9999997...\<close>. \<^verbatim>\<open>fit\<close> is a
  function of its two arguments, so equal inputs give equal results.
\<close>

theorem fit_at_most_one:
  "(fit x y = Some r \<longrightarrow> r = NaN \<or> r = NegInf \<or> (\<exists>v. r = Fin v \<and> v \<le> 1))
    \<and> (length xs = length ys \<and> 2 \<le> length xs \<and> (\<forall>xi\<in>set xs. 0 < xi)
        \<and> fit_with Fin (map Fin xs) (map Fin ys) = Some r'
      \<longrightarrow> (\<exists>v. r' = Fin v \<and> v \<le> 1
            \<and> v = (if spec_SStot xs ys > 0 then 1 - spec_SSres xs ys / spec_SStot xs ys else 0)))
    \<and> fit [Fin 1, Fin (1 + 1 / 2 ^ 26)] [Fin 1, Fin 2]
        = Some (Fin (- (1688849742823427 / 562949953421312)))
    \<and> fit_with Fin [Fin 1, Fin (1 + 1 / 2 ^ 26)] [Fin 1, Fin 2] = Some (Fin 1)
    \<and> (x = x' \<and> y = y' \<longrightarrow> fit x y = fit x' y')"
proof (intro conjI impI)
  assume "fit x y = Some r"
  from fit_le_one [OF this] show "r = NaN \<or> r = NegInf \<or> (\<exists>v. r = Fin v \<and> v \<le> 1)"
    by auto
next
  assume h: "length xs = length ys \<and> 2 \<le> length xs \<and> (\<forall>xi\<in>set xs. 0 < xi)
        \<and> fit_with Fin (map Fin xs) (map Fin ys) = Some r'"
  then have "0 \<notin> set xs" "length xs \<le> length ys" by auto
  from exact_fit_range [OF this] h
  show "\<exists>v. r' = Fin v \<and> v \<le> 1
      \<and> v = (if spec_SStot xs ys > 0 then 1 - spec_SSres xs ys / spec_SStot xs ys else 0)"
    by blast
next
  show "fit [Fin 1, Fin (1 + 1 / 2 ^ 26)] [Fin 1, Fin 2]
        = Some (Fin (- (1688849742823427 / 562949953421312)))"
    using fit_close by simp
  show "fit_with Fin [Fin 1, Fin (1 + 1 / 2 ^ 26)] [Fin 1, Fin 2] = Some (Fin 1)"
    by (rule exact_fit_close)
next
  assume "x = x' \<and> y = y'"
  then show "fit x y = fit x' y'" by simp
qed

theorem fit_at_most_one_witness:
  "(\<exists>v. Fin (- (1688849742823427 / 562949953421312)) = Fin v \<and> v \<le> 1)
    \<and> (\<exists>v. Fin 1 = Fin v \<and> v \<le> 1
          \<and> v = (if spec_SStot [1, 1 + 1 / 2 ^ 26] [1, 2] > 0
                 then 1 - spec_SSres [1, 1 + 1 / 2 ^ 26] [1, 2] / spec_SStot [1, 1 + 1 / 2 ^ 26] [1, 2]
                 else 0))
    \<and> fit [Fin 1, Fin (1 + 1 / 2 ^ 26)] [Fin 1, Fin 2]
        = fit [Fin 1, Fin (1 + 1 / 2 ^ 26)] [Fin 1, Fin 2]"
proof -
  let ?x = "[Fin 1, Fin (1 + 1 / 2 ^ 26)]" and ?y = "[Fin 1, Fin 2]"
  let ?xs = "[1, 1 + 1 / 2 ^ 26 :: real]" and ?ys = "[1, 2 :: real]"
  let ?r = "Fin (- (1688849742823427 / 562949953421312))"
  have c: "fit ?x ?y = Some ?r" using fit_close by simp
  have n: "?r \<noteq> NaN" "?r \<noteq> NegInf" by simp_all
  have l: "length ?xs = length ?ys" "2 \<le> length ?xs" "\<forall>xi\<in>set ?xs. 0 < xi" by simp_all
  have "fit_with Fin (map Fin ?xs) (map Fin ?ys) = Some (Fin 1)"
    using exact_fit_close by simp
  with fit_at_most_one [of ?x ?y ?r ?xs ?ys "Fin 1" ?x ?y] c n l show ?thesis by blast
qed

section \<open>The handlers: row filtering\<close>

text \<open>
  A row is readable when it is not \<^verbatim>\<open>null\<close> and its first two entries, where it
  has them, convert to a string. On readable rows the loop ends without an exception
  and keeps exactly the rows that are not discarded, a row being discarded when one of
  its two entries fails to parse or the parsed \<open>x\<close> is not positive; and when fewer than
  two rows survive, both handlers answer 400.
\<close>

lemma get_index_not_null: "row \<noteq> JNull \<Longrightarrow> get_index row i = Inr (row_entry row i)"
  by (cases row) (simp_all add: row_entry_def)

lemma parseFloat_readable:
  assumes "\<forall>j. row_entry row i = Some j \<longrightarrow> stringifies j"
  shows "parseFloat pf (row_entry row i) = Inr (spec_parsed pf row i)"
  using assms by (simp add: parseFloat_def parseFloat_json_def spec_parsed_def split: option.splits)

lemma filter_rows_step:
  assumes "row \<noteq> JNull" "\<forall>j. row_entry row 0 = Some j \<longrightarrow> stringifies j"
    "\<forall>j. row_entry row 1 = Some j \<longrightarrow> stringifies j"
  shows "filter_rows pf (row # rs) x y =
    (if spec_discarded pf row then filter_rows pf rs x y
     else filter_rows pf rs (x @ [spec_parsed pf row 0]) (y @ [spec_parsed pf row 1]))"
proof -
  have p0: "parseFloat pf (row_entry row 0) = Inr (spec_parsed pf row 0)"
    by (rule parseFloat_readable [OF assms(2)])
  have p1: "parseFloat pf (row_entry row (Suc 0)) = Inr (spec_parsed pf row (Suc 0))"
    using parseFloat_readable [OF assms(3)] by simp
  show ?thesis
    by (simp add: get_index_not_null [OF assms(1)] p0 p1 spec_discarded_def)
qed

lemma filter_rows_surviving:
  assumes "\<forall>row\<in>set rs. row \<noteq> JNull
      \<and> (\<forall>j. row_entry row 0 = Some j \<longrightarrow> stringifies j)
      \<and> (\<forall>j. row_entry row 1 = Some j \<longrightarrow> stringifies j)"
  shows "filter_rows pf rs x y
      = Inr (x @ map fst (spec_surviving pf rs), y @ map snd (spec_surviving pf rs))"
  using assms
proof (induction rs arbitrary: x y)
  case Nil
  then show ?case by (simp add: spec_surviving_def)
next
  case (Cons row rs)
  then have r: "row \<noteq> JNull" "\<forall>j. row_entry row 0 = Some j \<longrightarrow> stringifies j"
    "\<forall>j. row_entry row 1 = Some j \<longrightarrow> stringifies j"
    by simp_all
  have "filter_rows pf rs x' y'
      = Inr (x' @ map fst (spec_surviving pf rs), y' @ map snd (spec_surviving pf rs))" for x' y'
    using Cons by simp
  then show ?case
    unfolding filter_rows_step [OF r] by (simp add: spec_surviving_def)
qed

lemma too_few_rows_400:
  assumes "\<forall>row\<in>set rs. row \<noteq> JNull
      \<and> (\<forall>j. row_entry row 0 = Some j \<longrightarrow> stringifies j)
      \<and> (\<forall>j. row_entry row 1 = Some j \<longrightarrow> stringifies j)"
    "http_method req \<noteq> ascii ''OPTIONS''" "json_body req = Some b" "rows b = Some (JArr rs)"
    "length (spec_surviving pf rs) < 2"
  shows "onRequestPost_fixed pf req
        = Inr \<lparr>status = 400, payload = Error NeedAtLeast2ValidPoints\<rparr>"
    and "transformKey b = Some k \<Longrightarrow> k \<noteq> []
      \<Longrightarrow> onRequestPost pf req = Inr \<lparr>status = 400, payload = Error NeedAtLeast2ValidPoints\<rparr>"
proof -
  have f: "filter_rows pf rs [] []
      = Inr (map fst (spec_surviving pf rs), map snd (spec_surviving pf rs))"
    using filter_rows_surviving [OF assms(1), of pf "[]" "[]"] by simp
  show "onRequestPost_fixed pf req
      = Inr \<lparr>status = 400, payload = Error NeedAtLeast2ValidPoints\<rparr>"
    using assms(2-5) f by (simp add: onRequestPost_fixed_def)
  assume "transformKey b = Some k" "k \<noteq> []"
  then show "onRequestPost pf req
      = Inr \<lparr>status = 400, payload = Error NeedAtLeast2ValidPoints\<rparr>"
    using assms(2-5) f by (simp add: onRequestPost_def)
qed

text \<open>
  The two rows of the specification: \<^verbatim>\<open>["abc", 5]\<close> (with a \<^verbatim>\<open>parseFloat\<close> that reads
  no number in \<^verbatim>\<open>"abc"\<close>) and \<^verbatim>\<open>[-1, 5]\<close> are dropped, and the request is answered
  400.
\<close>

lemma invalid_rows_dropped:
  assumes "pf (ascii ''abc'') = NaN"
  shows "filter_rows pf [JArr [JStr (ascii ''abc''), JNum 5], JArr [JNum (- 1), JNum 5]] [] []
      = Inr ([], [])"
    and "onRequestPost_fixed pf
        \<lparr>http_method = ascii ''POST'',
         json_body = Some \<lparr>rows = Some (JArr [JArr [JStr (ascii ''abc''), JNum 5],
                                                JArr [JNum (- 1), JNum 5]]),
                           transformKey = tk\<rparr>\<rparr>
      = Inr \<lparr>status = 400, payload = Error NeedAtLeast2ValidPoints\<rparr>"
    and "onRequestPost pf
        \<lparr>http_method = ascii ''POST'',
         json_body = Some \<lparr>rows = Some (JArr [JArr [JStr (ascii ''abc''), JNum 5],
                                                JArr [JNum (- 1), JNum 5]]),
                           transformKey = Some (ascii ''sinh(R'' @ [0xB2] @ ascii '')'')\<rparr>\<rparr>
      = Inr \<lparr>status = 400, payload = Error NeedAtLeast2ValidPoints\<rparr>"
proof -
  have m: "ascii ''POST'' \<noteq> ascii ''OPTIONS''" "ascii ''sinh(R'' @ [0xB2] @ ascii '')'' \<noteq> []"
    by (simp_all add: ascii_def)
  show f: "filter_rows pf [JArr [JStr (ascii ''abc''), JNum 5], JArr [JNum (- 1), JNum 5]] [] []
      = Inr ([], [])"
    using assms by (simp add: parseFloat_def parseFloat_json_def roundings_dropped)
  show "onRequestPost_fixed pf
        \<lparr>http_method = ascii ''POST'',
         json_body = Some \<lparr>rows = Some (JArr [JArr [JStr (ascii ''abc''), JNum 5],
                                                JArr [JNum (- 1), JNum 5]]),
                           transformKey = tk\<rparr>\<rparr>
      = Inr \<lparr>status = 400, payload = Error NeedAtLeast2ValidPoints\<rparr>"
    by (simp add: onRequestPost_fixed_def f m del: filter_rows.simps)
  show "onRequestPost pf
        \<lparr>http_method = ascii ''POST'',
         json_body = Some \<lparr>rows = Some (JArr [JArr [JStr (ascii ''abc''), JNum 5],
                                                JArr [JNum (- 1), JNum 5]]),
                           transformKey = Some (ascii ''sinh(R'' @ [0xB2] @ ascii '')'')\<rparr>\<rparr>
      = Inr \<lparr>status = 400, payload = Error NeedAtLeast2ValidPoints\<rparr>"
    by (simp add: onRequestPost_def f m del: filter_rows.simps)
qed

lemma filter_rows_null: "filter_rows pf (JNull # rs) x y = Inl TypeError"
  by simp

text \<open>
  C6 (the code at a failing input). A row that is \<^verbatim>\<open>null\<close> has no entries to parse,
  and is a row either entry of which fails to parse as a number; it is not discarded.
  Reading \<^verbatim>\<open>row[0]\<close> throws a \<^verbatim>\<open>TypeError\<close> that nothing catches: on the rows
  \<^verbatim>\<open>null\<close>, \<open>[1,2]\<close>, \<open>[2,3]\<close>, two of which are valid, both handlers fail instead of
  fitting the two points, and on the single row \<^verbatim>\<open>null\<close>, where no row survives, they
  fail instead of answering 400. The same happens for a row one entry of which is an
  object with a key \<^verbatim>\<open>toString\<close>, which cannot be converted to a string.
\<close>

theorem null_row_throws:
  "onRequestPost pf
        \<lparr>http_method = ascii ''POST'',
         json_body = Some \<lparr>rows = Some (JArr [JNull, JArr [JNum 1, JNum 2], JArr [JNum 2, JNum 3]]),
                           transformKey = Some (ascii ''sinh(R'' @ [0xB2] @ ascii '')'')\<rparr>\<rparr>
      = Inl TypeError
    \<and> onRequestPost_fixed pf
        \<lparr>http_method = ascii ''POST'',
         json_body = Some \<lparr>rows = Some (JArr [JNull, JArr [JNum 1, JNum 2], JArr [JNum 2, JNum 3]]),
                           transformKey = tk\<rparr>\<rparr>
      = Inl TypeError
    \<and> onRequestPost pf
        \<lparr>http_method = ascii ''POST'',
         json_body = Some \<lparr>rows = Some (JArr [JNull]),
                           transformKey = Some (ascii ''sinh(R'' @ [0xB2] @ ascii '')'')\<rparr>\<rparr>
      = Inl TypeError
    \<and> onRequestPost_fixed pf
        \<lparr>http_method = ascii ''POST'',
         json_body = Some \<lparr>rows = Some (JArr [JNull]), transformKey = tk\<rparr>\<rparr>
      = Inl TypeError
    \<and> onRequestPost_fixed pf
        \<lparr>http_method = ascii ''POST'',
         json_body = Some \<lparr>rows = Some (JArr [JArr [JObj [(ascii ''toString'', JNum 1)], JNum 2]]),
                           transformKey = tk\<rparr>\<rparr>
      = Inl TypeError"
proof -
  have m: "ascii ''POST'' \<noteq> ascii ''OPTIONS''" "ascii ''sinh(R'' @ [0xB2] @ ascii '')'' \<noteq> []"
    by (simp_all add: ascii_def)
  have o: "filter_rows pf [JArr [JObj [(ascii ''toString'', JNum 1)], JNum 2]] [] []
      = Inl TypeError"
    by (simp add: parseFloat_def parseFloat_json_def)
  show ?thesis
    by (simp add: onRequestPost_def onRequestPost_fixed_def filter_rows_null m o
        del: filter_rows.simps)
qed

section \<open>The handlers: the value returned on success\<close>

lemma round_close:
  fixes n a :: real
  assumes "n \<le> a * 10 ^ 6 + 1 / 2" "a * 10 ^ 6 + 1 / 2 < n + 1"
  shows "\<bar>n / 10 ^ 6 - a\<bar> \<le> 1 / (2 * 10 ^ 6)"
proof -
  have "n / 10 ^ 6 - a = (n - a * 10 ^ 6) / 10 ^ 6" by (simp add: field_simps)
  moreover have "\<bar>n - a * 10 ^ 6\<bar> \<le> 1 / 2" using assms by linarith
  ultimately show ?thesis by (simp add: abs_divide field_simps)
qed

lemma toFixed6_close: "\<bar>toFixed6 v - v\<bar> \<le> 1 / (2 * 10 ^ 6)"
proof (cases "\<bar>v\<bar> \<ge> 10 ^ 21")
  case True
  then show ?thesis by (simp add: toFixed6_def)
next
  case False
  let ?t = "\<bar>v\<bar> * 10 ^ 6 + 1 / 2"
  have "of_int \<lfloor>?t\<rfloor> \<le> ?t" and "?t < of_int \<lfloor>?t\<rfloor> + 1" by linarith+
  then have c: "\<bar>of_int \<lfloor>?t\<rfloor> / 10 ^ 6 - \<bar>v\<bar>\<bar> \<le> 1 / (2 * 10 ^ 6)"
    by (rule round_close)
  have "toFixed6 v - v = sgn v * (of_int \<lfloor>?t\<rfloor> / 10 ^ 6 - \<bar>v\<bar>)"
    using False by (simp add: toFixed6_def algebra_simps sgn_real_def)
  then have "\<bar>toFixed6 v - v\<bar> \<le> \<bar>of_int \<lfloor>?t\<rfloor> / 10 ^ 6 - \<bar>v\<bar>\<bar>"
    by (simp add: abs_mult sgn_real_def)
  then show ?thesis using c by linarith
qed

lemma toFixed6_decimals: "\<bar>v\<bar> < 10 ^ 21 \<Longrightarrow> toFixed6 v * 10 ^ 6 \<in> \<int>"
  by (simp add: toFixed6_def sgn_real_def)

lemma onRequestPost_200:
  assumes "onRequestPost pf req = Inr resp" "status resp = 200"
  shows "\<exists>b rs k x y r2 out.
      json_body req = Some b \<and> rows b = Some (JArr rs) \<and> transformKey b = Some k
      \<and> filter_rows pf rs [] [] = Inr (x, y) \<and> fit x y = Some r2
      \<and> call (TRANSFORMS_get k) r2 = Inr out
      \<and> payload resp = MainResult (round_result out)"
  using assms
  by (auto simp: onRequestPost_def Let_def
      split: if_splits option.splits json.splits sum.splits prod.splits)

lemma onRequestPost_fixed_200:
  assumes "onRequestPost_fixed pf req = Inr resp" "status resp = 200"
  shows "\<exists>b rs x y r2.
      json_body req = Some b \<and> rows b = Some (JArr rs)
      \<and> filter_rows pf rs [] [] = Inr (x, y) \<and> fit_fixed x y = Some r2
      \<and> payload resp = MainResult (round_result (Number (transform_number r2)))"
  using assms
  by (auto simp: onRequestPost_fixed_def Let_def
      split: if_splits option.splits json.splits sum.splits prod.splits)

lemma filter_rows_perfect:
  "filter_rows pf [JArr [JNum 1, JNum 1], JArr [JNum 2, JNum (1 / 4)]] [] []
    = Inr ([Fin 1, Fin 2], [Fin 1, Fin (1 / 4)])"
  by (simp add: parseFloat_def parseFloat_json_def roundings_perfect)

lemma toFixed6_1: "toFixed6 1 = 1"
  by (simp add: toFixed6_def)

text \<open>
  C8. A response with status 200 carries as \<^verbatim>\<open>mainResult\<close> what the transform
  returned, passed through \<open>round_result\<close>: a finite number is replaced by its
  rounding to six decimals (within \<open>10\<^sup>-\<^sup>6/2\<close> of it, and a multiple of \<open>10\<^sup>-\<^sup>6\<close>
  below the magnitude \<open>10\<^sup>2\<^sup>1\<close> from which \<^verbatim>\<open>toFixed\<close> prints a number in full);
  a number that is not finite (an infinity or \<open>NaN\<close>), and a value that is not a
  number, are passed through as they are.
\<close>

theorem main_result_rounded:
  "(onRequestPost pf req = Inr resp \<and> status resp = 200 \<longrightarrow>
      (\<exists>b rs k x y r2 out.
        json_body req = Some b \<and> rows b = Some (JArr rs) \<and> transformKey b = Some k
        \<and> filter_rows pf rs [] [] = Inr (x, y) \<and> fit x y = Some r2
        \<and> call (TRANSFORMS_get k) r2 = Inr out
        \<and> payload resp = MainResult (round_result out)))
    \<and> (onRequestPost_fixed pf req = Inr resp' \<and> status resp' = 200 \<longrightarrow>
      (\<exists>b rs x y r2.
        json_body req = Some b \<and> rows b = Some (JArr rs)
        \<and> filter_rows pf rs [] [] = Inr (x, y) \<and> fit_fixed x y = Some r2
        \<and> payload resp' = MainResult (round_result (Number (transform_number r2)))))
    \<and> round_result (Number (Fin v)) = Number (Fin (toFixed6 v))
    \<and> \<bar>toFixed6 v - v\<bar> \<le> 1 / (2 * 10 ^ 6)
    \<and> (\<bar>v\<bar> < 10 ^ 21 \<longrightarrow> toFixed6 v * 10 ^ 6 \<in> \<int>)
    \<and> round_result (Number PosInf) = Number PosInf
    \<and> round_result (Number NegInf) = Number NegInf
    \<and> round_result (Number NaN) = Number NaN
    \<and> round_result (NumberObject n) = NumberObject n
    \<and> round_result (String s) = String s
    \<and> round_result (Boolean c) = Boolean c"
  using onRequestPost_200 [of pf req resp] onRequestPost_fixed_200 [of pf req resp']
    toFixed6_close [of v] toFixed6_decimals [of v]
  by simp

theorem main_result_rounded_witness:
  "(\<exists>b rs k x y r2 out.
        json_body \<lparr>http_method = ascii ''POST'',
            json_body = Some \<lparr>rows = Some (JArr [JArr [JNum 1, JNum 1], JArr [JNum 2, JNum (1 / 4)]]),
                              transformKey = Some (ascii ''R'' @ [0xB2, 0xB2])\<rparr>\<rparr> = Some b
        \<and> rows b = Some (JArr rs) \<and> transformKey b = Some k
        \<and> filter_rows (\<lambda>s. NaN) rs [] [] = Inr (x, y) \<and> fit x y = Some r2
        \<and> call (TRANSFORMS_get k) r2 = Inr out
        \<and> payload \<lparr>status = 200, payload = MainResult (Number (Fin 1))\<rparr>
            = MainResult (round_result out))
    \<and> (\<exists>b rs x y r2.
        json_body \<lparr>http_method = ascii ''POST'',
            json_body = Some \<lparr>rows = Some (JArr [JArr [JNum 1, JNum 1], JArr [JNum 2, JNum (1 / 4)]]),
                              transformKey = Some (ascii ''R'' @ [0xB2, 0xB2])\<rparr>\<rparr> = Some b
        \<and> rows b = Some (JArr rs)
        \<and> filter_rows (\<lambda>s. NaN) rs [] [] = Inr (x, y) \<and> fit_fixed x y = Some r2
        \<and> payload \<lparr>status = 200,
              payload = MainResult (round_result (Number (transform_number (Fin 1))))\<rparr>
            = MainResult (round_result (Number (transform_number r2))))
    \<and> round_result (Number (Fin (1 / 3))) = Number (Fin (toFixed6 (1 / 3)))
    \<and> \<bar>toFixed6 (1 / 3) - 1 / 3\<bar> \<le> 1 / (2 * 10 ^ 6)
    \<and> toFixed6 (1 / 3) * 10 ^ 6 \<in> \<int>"
proof -
  let ?rs = "[JArr [JNum 1, JNum 1], JArr [JNum 2, JNum (1 / 4)]]"
  let ?k = "ascii ''R'' @ [0xB2, 0xB2]"
  let ?b = "\<lparr>rows = Some (JArr ?rs), transformKey = Some ?k\<rparr>"
  let ?req = "\<lparr>http_method = ascii ''POST'', json_body = Some ?b\<rparr>"
  let ?resp = "\<lparr>status = 200, payload = MainResult (Number (Fin 1))\<rparr>"
  let ?resp' = "\<lparr>status = 200,
    payload = MainResult (round_result (Number (transform_number (Fin 1))))\<rparr>"
  have k: "TRANSFORMS_get ?k = TableEntry Square"
    by (simp add: TRANSFORMS_get_def TRANSFORMS_keys_def Object_prototype_keys_def ascii_def)
  have m: "ascii ''POST'' \<noteq> ascii ''OPTIONS''" "?k \<noteq> []" by (simp_all add: ascii_def)
  have h: "onRequestPost (\<lambda>s. NaN) ?req = Inr ?resp"
    by (simp add: onRequestPost_def k filter_rows_perfect fit_perfect m to_number_def toFixed6_1
        del: filter_rows.simps)
  have h': "onRequestPost_fixed (\<lambda>s. NaN) ?req = Inr ?resp'"
    by (simp add: onRequestPost_fixed_def filter_rows_perfect fit_fixed_fit fit_perfect m
        del: filter_rows.simps round_result.simps transform_number.simps)
  have s: "status ?resp = 200" "status ?resp' = 200" by simp_all
  have v: "\<bar>1 / 3 :: real\<bar> < 10 ^ 21" by simp
  show ?thesis
    using main_result_rounded [of "\<lambda>s. NaN" ?req ?resp ?resp' "1 / 3"] h h' s v
    by blast
qed

section \<open>The handlers: the key of the transform\<close>

text \<open>
  A key that names no function is rejected before the fit; the keys that name one are
  the fifteen of the table and the names of the methods every object inherits.
\<close>

lemma unknown_transform_rejected:
  assumes "http_method req \<noteq> ascii ''OPTIONS''" "json_body req = Some b"
    "rows b = Some (JArr rs)" "transformKey b = Some k" "k \<noteq> []"
    "filter_rows pf rs [] [] = Inr (x, y)" "2 \<le> length x"
    "\<not> is_function (TRANSFORMS_get k)"
  shows "onRequestPost pf req = Inr \<lparr>status = 400, payload = Error UnknownTransform\<rparr>"
  using assms by (simp add: onRequestPost_def)

lemma is_function_iff:
  "is_function (TRANSFORMS_get k)
    \<longleftrightarrow> k \<in> fst ` set TRANSFORMS_keys \<or> k \<in> fst ` set Object_prototype_keys"
  by (auto simp: TRANSFORMS_get_def map_of_eq_None_iff [symmetric]
      split: option.splits)

lemma filter_rows_rows:
  "filter_rows pf [JArr [JNum 1, JNum 5], JArr [JNum 2, JNum 2],
                   JArr [JNum 3, JNum (6 / 5)], JArr [JNum 4, JNum (4 / 5)]] [] []
    = Inr ([Fin 1, Fin 2, Fin 3, Fin 4],
           [Fin 5, Fin 2, Fin (5404319552844595 / 4503599627370496),
            Fin (3602879701896397 / 4503599627370496)])"
  by (simp add: parseFloat_def parseFloat_json_def roundings_rows)

lemma exact_fit_rows:
  "fit_with Fin [Fin 1, Fin 2, Fin 3, Fin 4] [Fin 5, Fin 2, Fin (6 / 5), Fin (4 / 5)]
    = Some (Fin (5669161 / 5709937))"
  by (simp add: fit_with_def Let_def nth_number_def fsub_def)

text \<open>
  C5 (the code at a failing input). The key \<^verbatim>\<open>constructor\<close> is none of the fifteen
  keys of the table, yet on the rows \<open>[1,5], [2,2], [3,1.2], [4,0.8]\<close> the handler
  does not answer 400: it runs the fit (\<open>R\<^sup>2 = 0.99285876...\<close>, in exact arithmetic
  \<open>5669161/5709937\<close>) and answers 200 with \<^verbatim>\<open>Object(r2)\<close>, the unrounded \<open>R\<^sup>2\<close>
  itself.
\<close>

theorem constructor_key_accepted:
  "map_of TRANSFORMS_keys (ascii ''constructor'') = None
    \<and> fit [Fin 1, Fin 2, Fin 3, Fin 4]
          [Fin 5, Fin 2, Fin (5404319552844595 / 4503599627370496),
           Fin (3602879701896397 / 4503599627370496)]
        = Some (Fin (2235719182812643 / 2251799813685248))
    \<and> fit_with Fin [Fin 1, Fin 2, Fin 3, Fin 4] [Fin 5, Fin 2, Fin (6 / 5), Fin (4 / 5)]
        = Some (Fin (5669161 / 5709937))
    \<and> onRequestPost pf
        \<lparr>http_method = ascii ''POST'',
         json_body = Some \<lparr>rows = Some (JArr [JArr [JNum 1, JNum 5], JArr [JNum 2, JNum 2],
                                                JArr [JNum 3, JNum (6 / 5)], JArr [JNum 4, JNum (4 / 5)]]),
                           transformKey = Some (ascii ''constructor'')\<rparr>\<rparr>
      = Inr \<lparr>status = 200,
             payload = MainResult (NumberObject (Fin (2235719182812643 / 2251799813685248)))\<rparr>"
proof -
  have o: "map_of TRANSFORMS_keys (ascii ''constructor'') = None"
    by (simp add: TRANSFORMS_keys_def ascii_def)
  have k: "TRANSFORMS_get (ascii ''constructor'') = Inherited Constructor"
    by (simp add: TRANSFORMS_get_def o) (simp add: Object_prototype_keys_def ascii_def)
  have m: "ascii ''POST'' \<noteq> ascii ''OPTIONS''" "ascii ''constructor'' \<noteq> []"
    by (simp_all add: ascii_def)
  have "onRequestPost pf
        \<lparr>http_method = ascii ''POST'',
         json_body = Some \<lparr>rows = Some (JArr [JArr [JNum 1, JNum 5], JArr [JNum 2, JNum 2],
                                                JArr [JNum 3, JNum (6 / 5)], JArr [JNum 4, JNum (4 / 5)]]),
                           transformKey = Some (ascii ''constructor'')\<rparr>\<rparr>
      = Inr \<lparr>status = 200,
             payload = MainResult (NumberObject (Fin (2235719182812643 / 2251799813685248)))\<rparr>"
    by (simp add: onRequestPost_def k filter_rows_rows m fit_rows del: filter_rows.simps)
  with o fit_rows exact_fit_rows show ?thesis by (simp only: simp_thms)
qed

text \<open>With the key \<^verbatim>\<open>valueOf\<close> the call throws after a successful fit, and the
  handler answers 422.\<close>

lemma valueOf_key_fails:
  "onRequestPost pf
        \<lparr>http_method = ascii ''POST'',
         json_body = Some \<lparr>rows = Some (JArr [JArr [JNum 1, JNum 5], JArr [JNum 2, JNum 2],
                                                JArr [JNum 3, JNum (6 / 5)], JArr [JNum 4, JNum (4 / 5)]]),
                           transformKey = Some (ascii ''valueOf'')\<rparr>\<rparr>
      = Inr \<lparr>status = 422, payload = Error TransformFailed\<rparr>"
proof -
  have k: "TRANSFORMS_get (ascii ''valueOf'') = Inherited ValueOf"
    by (simp add: TRANSFORMS_get_def TRANSFORMS_keys_def Object_prototype_keys_def ascii_def)
  have m: "ascii ''POST'' \<noteq> ascii ''OPTIONS''" "ascii ''valueOf'' \<noteq> []"
    by (simp_all add: ascii_def)
  show ?thesis
    by (simp add: onRequestPost_def k filter_rows_rows m fit_rows del: filter_rows.simps)
qed

section \<open>The transforms: sign and size of the result\<close>

text \<open>Every transform of the table returns a number that is not negative.\<close>

lemma TRANSFORMS_nonneg: "0 \<le> TRANSFORMS t r2"
proof (cases t)
  case NegLogComplement
  have "max (1 / 10 ^ 10) (1 - max 0 (min 0.9999 r2)) \<le> 1" by (simp add: max_def)
  moreover have "0 < max (1 / 10 ^ 10) (1 - max 0 (min 0.9999 r2))" by (simp add: max_def)
  ultimately have "ln (max (1 / 10 ^ 10) (1 - max 0 (min 0.9999 r2))) \<le> 0"
    by (simp only: ln_le_zero_iff)
  with NegLogComplement show ?thesis by simp
next
  case TangentHalfPi
  have "0 \<le> pi * max 0 (min 0.999 r2) / 2" using clamp999_bounds [of r2] by simp
  moreover have "pi * max 0 (min 0.999 r2) / 2 < pi / 2"
    using clamp999_lt1 [of r2] pi_gt_zero by simp
  ultimately show ?thesis using TangentHalfPi by (simp only: TRANSFORMS.simps tan_pos_pi2_le)
next
  case ReciprocalComplement
  then show ?thesis using clamp999_lt1 [of r2] by simp
next
  case InverseCubeComplement
  then show ?thesis using floor_pos [of r2] by (simp del: max_less_iff_conj)
qed (simp_all add: Let_def)

lemma exp_ge_five_power: "(5::real) ^ n \<le> exp (real (2 * n))"
proof -
  have "(5::real) \<le> exp 2" using exp_lower_Taylor_quadratic [of "2::real"] by simp
  then have "(5::real) ^ n \<le> exp 2 ^ n" by (intro power_mono) simp_all
  also have "\<dots> = exp (real (2 * n))"
    by (simp add: exp_of_nat_mult [symmetric] mult.commute)
  finally show ?thesis .
qed

text \<open>A table entry never throws, and what it returns is not negative.\<close>

lemma TRANSFORMS_number_nonneg:
  "TRANSFORMS_number t (Fin r2) \<in> insert PosInf (Fin ` {0..})"
  using TRANSFORMS_nonneg [of t r2] by (simp add: to_number_def)

lemma exp_906_overflows: "2 ^ 1024 \<le> exp (906 :: real)"
proof -
  have "(2::real) ^ 1024 \<le> 5 ^ 453" by simp
  also have "\<dots> \<le> exp (real (2 * 453))" by (rule exp_ge_five_power)
  finally show ?thesis by simp
qed

lemma to_number_overflow: "906 \<le> z \<Longrightarrow> to_number (exp z) = PosInf"
proof -
  assume "906 \<le> z"
  then have "exp 906 \<le> exp z" by simp
  with exp_906_overflows have "2 ^ 1024 \<le> exp z" by linarith
  then show ?thesis by (simp add: to_number_def)
qed

lemma filter_rows_overflow:
  "filter_rows pf [JArr [JNum 1, JNum (1243 / 8)], JArr [JNum 2, JNum (- (377 / 8))],
                   JArr [JNum 4, JNum (- (433 / 4))]] [] []
    = Inr ([Fin 1, Fin 2, Fin 4], [Fin (1243 / 8), Fin (- (377 / 8)), Fin (- (433 / 4))])"
  by (simp add: parseFloat_def parseFloat_json_def roundings_overflow)

lemma exact_fit_overflow:
  "fit_with Fin [Fin 1, Fin 2, Fin 4] [Fin (1243 / 8), Fin (- (377 / 8)), Fin (- (433 / 4))]
    = Some (Fin (57963 / 58027))"
  by (simp add: fit_with_def Let_def nth_number_def fsub_def)

text \<open>
  C10 (the code at a failing input). On the rows \<open>[1,155.375], [2,-47.125],
  [4,-108.25]\<close> the fit returns \<open>R\<^sup>2 = 0.99889706...\<close> (in exact arithmetic
  \<open>57963/58027\<close>), just below the ceiling \<open>0.999\<close>; there \<^verbatim>\<open>exp(1/(1-R^2))\<close> is
  \<open>exp 906.67...\<close>, beyond the range of binary64: the entry returns \<open>+\<infinity>\<close>, and the
  handler passes it through unrounded with status 200.
\<close>

theorem exp_reciprocal_not_finite:
  "fit [Fin 1, Fin 2, Fin 4] [Fin (1243 / 8), Fin (- (377 / 8)), Fin (- (433 / 4))]
      = Some (Fin (8997264900866013 / 9007199254740992))
    \<and> TRANSFORMS ExpReciprocalComplement (8997264900866013 / 9007199254740992)
      = exp (9007199254740992 / 9934353874979)
    \<and> 2 ^ 1024 \<le> TRANSFORMS ExpReciprocalComplement (8997264900866013 / 9007199254740992)
    \<and> TRANSFORMS_number ExpReciprocalComplement (Fin (8997264900866013 / 9007199254740992))
      = PosInf
    \<and> fit_with Fin [Fin 1, Fin 2, Fin 4] [Fin (1243 / 8), Fin (- (377 / 8)), Fin (- (433 / 4))]
      = Some (Fin (57963 / 58027))
    \<and> TRANSFORMS ExpReciprocalComplement (57963 / 58027) = exp (58027 / 64)
    \<and> 2 ^ 1024 \<le> TRANSFORMS ExpReciprocalComplement (57963 / 58027)
    \<and> onRequestPost pf
        \<lparr>http_method = ascii ''POST'',
         json_body = Some \<lparr>rows = Some (JArr [JArr [JNum 1, JNum (1243 / 8)],
                              JArr [JNum 2, JNum (- (377 / 8))], JArr [JNum 4, JNum (- (433 / 4))]]),
                           transformKey
                             = Some (ascii ''exp(1/(1-R'' @ [0xB2] @ ascii '')) '' @ [0x2605])\<rparr>\<rparr>
      = Inr \<lparr>status = 200, payload = MainResult (Number PosInf)\<rparr>"
proof -
  let ?k = "ascii ''exp(1/(1-R'' @ [0xB2] @ ascii '')) '' @ [0x2605]"
  have t: "TRANSFORMS ExpReciprocalComplement (8997264900866013 / 9007199254740992)
      = exp (9007199254740992 / 9934353874979)"
    by simp
  have "exp (906 :: real) \<le> exp (9007199254740992 / 9934353874979)" by simp
  with exp_906_overflows have b: "2 ^ 1024 \<le> exp (9007199254740992 / 9934353874979 :: real)"
    by linarith
  have n: "TRANSFORMS_number ExpReciprocalComplement (Fin (8997264900866013 / 9007199254740992))
      = PosInf"
    unfolding TRANSFORMS_number.simps t by (rule to_number_overflow) simp
  have t': "TRANSFORMS ExpReciprocalComplement (57963 / 58027) = exp (58027 / 64)"
    by simp
  have "exp (906 :: real) \<le> exp (58027 / 64)" by simp
  with exp_906_overflows have b': "2 ^ 1024 \<le> exp (58027 / 64 :: real)" by linarith
  have m: "ascii ''POST'' \<noteq> ascii ''OPTIONS''" "?k \<noteq> []"
    by (simp_all add: ascii_def)
  have "onRequestPost pf
        \<lparr>http_method = ascii ''POST'',
         json_body = Some \<lparr>rows = Some (JArr [JArr [JNum 1, JNum (1243 / 8)],
                              JArr [JNum 2, JNum (- (377 / 8))], JArr [JNum 4, JNum (- (433 / 4))]]),
                           transformKey = Some ?k\<rparr>\<rparr>
      = Inr \<lparr>status = 200, payload = MainResult (Number PosInf)\<rparr>"
    by (simp add: onRequestPost_def filter_rows_overflow m fit_overflow n
        TRANSFORMS_get_def TRANSFORMS_keys_def ascii_def
        del: filter_rows.simps TRANSFORMS_number.simps TRANSFORMS.simps)
  with fit_overflow t b n exact_fit_overflow t' b' show ?thesis by (simp only: simp_thms)
qed

section \<open>Numerical values: \<open>e\<close>, \<open>ln 10\<close> and the rounding\<close>

text \<open>
  The exponential between its Taylor polynomial and the polynomial plus a bound of
  the remainder, on \<open>[0, 1]\<close>; from it, \<open>e\<close> and \<open>ln 10\<close> to seven decimals.
\<close>

lemma exp_taylor:
  fixes x :: real
  assumes "0 \<le> x" "x \<le> 1"
  shows "(\<Sum>m<n. x ^ m / fact m) \<le> exp x"
    and "exp x \<le> (\<Sum>m<n. x ^ m / fact m) + 3 * x ^ n / fact n"
proof -
  obtain t where t: "\<bar>t\<bar> \<le> \<bar>x\<bar>"
    and e: "exp x = (\<Sum>m<n. x ^ m / fact m) + (exp t / fact n) * x ^ n"
    using Maclaurin_exp_le [of x n] by blast
  have "0 \<le> (exp t / fact n) * x ^ n" using assms(1) by simp
  then show "(\<Sum>m<n. x ^ m / fact m) \<le> exp x" using e by linarith
  have "t \<le> 1" using t assms by linarith
  then have "exp t \<le> exp 1" by simp
  then have "exp t \<le> 3" using exp_le by linarith
  then have "exp t * (x ^ n / fact n) \<le> 3 * (x ^ n / fact n)"
    using assms(1) by (intro mult_right_mono) simp_all
  then show "exp x \<le> (\<Sum>m<n. x ^ m / fact m) + 3 * x ^ n / fact n"
    using e by simp
qed

lemma taylor10:
  "(\<Sum>m<10. x ^ m / fact m)
    = 1 + x + x ^ 2 / 2 + x ^ 3 / 6 + x ^ 4 / 24 + x ^ 5 / 120 + x ^ 6 / 720 + x ^ 7 / 5040
      + x ^ 8 / 40320 + x ^ 9 / (362880 :: real)"
  by (simp add: eval_nat_numeral lessThan_Suc fact_numeral algebra_simps)

lemma exp_one_bounds: "2.7182815 \<le> exp (1::real)" "exp (1::real) < 2.7182825"
proof -
  have "(2.7182815::real) \<le> (\<Sum>m<10. 1 ^ m / fact m)"
    unfolding taylor10 by simp
  also have "\<dots> \<le> exp 1" by (rule exp_taylor(1)) simp_all
  finally show "2.7182815 \<le> exp (1::real)" .
  have "exp (1::real) \<le> (\<Sum>m<10. 1 ^ m / fact m) + 3 * 1 ^ 10 / fact 10"
    by (rule exp_taylor(2)) simp_all
  also have "\<dots> < 2.7182825"
    unfolding taylor10 by (simp add: fact_numeral)
  finally show "exp (1::real) < 2.7182825" .
qed

lemma ln_10_enclosure: "2.302584875 \<le> ln (10::real)" "ln (10::real) < 2.302585125"
proof -
  let ?x = "0.287823109375 :: real" and ?z = "0.287823140625 :: real"
  have "exp ?x \<le> (\<Sum>m<10. ?x ^ m / fact m) + 3 * ?x ^ 10 / fact 10"
    by (rule exp_taylor(2)) simp_all
  also have "\<dots> \<le> 1.333521395828"
    unfolding taylor10 by (simp add: fact_numeral power_divide)
  finally have "exp ?x ^ 8 \<le> 1.333521395828 ^ 8" by (intro power_mono) simp_all
  also have "\<dots> \<le> (10::real)" by (simp add: power_divide)
  finally have "exp (real 8 * ?x) \<le> 10" by (simp only: exp_of_nat_mult)
  then have "exp 2.302584875 \<le> (10::real)" by simp
  then show "2.302584875 \<le> ln (10::real)" by (subst ln_ge_iff) simp_all
  have "(1.3335214374972::real) \<le> (\<Sum>m<10. ?z ^ m / fact m)"
    unfolding taylor10 by (simp add: power_divide)
  also have "\<dots> \<le> exp ?z" by (rule exp_taylor(1)) simp_all
  finally have "(1.3335214374972::real) ^ 8 \<le> exp ?z ^ 8" by (intro power_mono) simp_all
  moreover have "(10::real) < 1.3335214374972 ^ 8" by (simp add: power_divide)
  ultimately have "10 < exp (real 8 * ?z)" by (simp only: exp_of_nat_mult)
  then have "exp (ln 10) < exp (2.302585125::real)" by simp
  then show "ln (10::real) < 2.302585125" by (simp only: exp_less_cancel_iff)
qed

lemma toFixed6_value:
  assumes "0 \<le> v" "v < 10 ^ 21" "real_of_int z - 1 / 2 \<le> v * 10 ^ 6" "v * 10 ^ 6 < real_of_int z + 1 / 2"
  shows "toFixed6 v = real_of_int z / 10 ^ 6"
proof -
  have "\<lfloor>\<bar>v\<bar> * 10 ^ 6 + 1 / 2\<rfloor> = z" using assms by (intro floor_unique) simp_all
  moreover have "z = 0" if "v = 0" using that assms(3,4) by simp
  ultimately show ?thesis using assms(1,2) by (cases "v = 0") (simp_all add: toFixed6_def)
qed

lemma toFixed6_exp_one: "toFixed6 (exp 1) = 2.718282"
  using toFixed6_value [of "exp 1" 2718282] exp_one_bounds by simp

lemma toFixed6_neg_log: "toFixed6 (- ln (1 / 10 ^ 4)) = 9.21034"
proof -
  have a: "- ln (1 / 10 ^ 4 :: real) = 4 * ln 10"
    using ln_realpow [of "10::real" 4] by (simp add: ln_div)
  show ?thesis
    unfolding a using toFixed6_value [of "4 * ln 10" 9210340] ln_10_enclosure by simp
qed

section \<open>The fitter and the fixed handler on data that lie on the curve\<close>

lemma sum_shifted_squares:
  fixes U :: "nat \<Rightarrow> real"
  shows "(\<Sum>i<n. (U i - c) ^ 2) = (\<Sum>i<n. (U i) ^ 2) - 2 * c * (\<Sum>i<n. U i) + real n * c ^ 2"
proof -
  have "(\<Sum>i<n. (U i - c) ^ 2) = (\<Sum>i<n. ((U i) ^ 2 - 2 * c * U i) + c ^ 2)"
    by (rule sum.cong) (simp_all add: power2_eq_square algebra_simps)
  also have "\<dots> = (\<Sum>i<n. (U i) ^ 2) - 2 * c * (\<Sum>i<n. U i) + real n * c ^ 2"
    by (simp add: sum.distrib sum_subtractf sum_distrib_left)
  finally show ?thesis .
qed

lemma centered_algebra:
  fixes S Q n :: real
  assumes "0 < n"
  shows "n * (Q - 2 * (S / n) * S + n * (S / n) ^ 2) = n * Q - S ^ 2"
  using assms by (simp add: power2_eq_square field_simps)

lemma sum_centered_squares:
  fixes U :: "nat \<Rightarrow> real"
  assumes "0 < n"
  shows "real n * (\<Sum>i<n. (U i - (\<Sum>i<n. U i) / real n) ^ 2)
      = real n * (\<Sum>i<n. (U i) ^ 2) - (\<Sum>i<n. U i) ^ 2"
  unfolding sum_shifted_squares using assms by (intro centered_algebra) simp

lemma spec_det_nonneg: "0 \<le> spec_det x"
proof (cases "length x = 0")
  case True
  then show ?thesis by (simp add: spec_det_def spec_Su_def spec_Su2_def)
next
  case False
  then have n: "0 < length x" by simp
  have "0 \<le> real (length x)
      * (\<Sum>i<length x. (spec_u x i - (\<Sum>i<length x. spec_u x i) / real (length x)) ^ 2)"
    by (intro mult_nonneg_nonneg sum_nonneg) simp_all
  then show ?thesis
    unfolding sum_centered_squares [OF n] by (simp add: spec_det_def spec_Su_def spec_Su2_def)
qed

lemma perfect_spec_fit:
  assumes det: "1 / 10 ^ 20 \<le> \<bar>spec_det x\<bar>"
    and data: "\<forall>i<length x. y ! i = b0 / (x ! i) ^ 2 + a0"
    and b0: "b0 \<noteq> 0"
  shows "spec_fit x y = Some 1"
proof -
  let ?n = "length x"
  have dpos: "0 < spec_det x" using det spec_det_nonneg [of x] by simp
  have n: "0 < ?n"
  proof (rule ccontr)
    assume "\<not> 0 < ?n"
    then have "spec_det x = 0" by (simp add: spec_det_def spec_Su_def spec_Su2_def)
    with dpos show False by simp
  qed
  have yi: "y ! i = b0 * spec_u x i + a0" if "i < ?n" for i
    using data that by (simp add: spec_u_def)
  have Sy: "spec_Sy x y = b0 * spec_Su x + real ?n * a0"
    unfolding spec_Sy_def spec_Su_def using yi
    by (simp add: sum.distrib sum_distrib_left)
  have Suy: "spec_Suy x y = b0 * spec_Su2 x + a0 * spec_Su x"
    unfolding spec_Suy_def spec_Su_def spec_Su2_def using yi
    by (simp add: sum.distrib sum_distrib_left algebra_simps power2_eq_square)
  have "spec_Sy x y * spec_Su2 x - spec_Su x * spec_Suy x y = a0 * spec_det x"
    by (simp add: Sy Suy spec_det_def power2_eq_square algebra_simps)
  then have a: "spec_a x y = a0" using dpos by (simp add: spec_a_def)
  have "real ?n * spec_Suy x y - spec_Su x * spec_Sy x y = b0 * spec_det x"
    by (simp add: Sy Suy spec_det_def power2_eq_square algebra_simps)
  then have b: "spec_b x y = b0" using dpos by (simp add: spec_b_def)
  have res: "spec_SSres x y = 0"
    unfolding spec_SSres_def a b using data by simp
  have "y ! i - spec_Sy x y / real ?n = b0 * (spec_u x i - spec_Su x / real ?n)"
    if "i < ?n" for i
    using n by (simp add: yi [OF that] Sy field_simps)
  then have "spec_SStot x y = (\<Sum>i<?n. (b0 * (spec_u x i - spec_Su x / real ?n)) ^ 2)"
    unfolding spec_SStot_def by simp
  also have "\<dots> = b0 ^ 2 * (\<Sum>i<?n. (spec_u x i - spec_Su x / real ?n) ^ 2)"
    by (simp add: power_mult_distrib sum_distrib_left)
  finally have "real ?n * spec_SStot x y
      = b0 ^ 2 * (real ?n * (\<Sum>i<?n. (spec_u x i - spec_Su x / real ?n) ^ 2))"
    by simp
  also have "\<dots> = b0 ^ 2 * spec_det x"
    unfolding spec_Su_def sum_centered_squares [OF n]
    by (simp add: spec_det_def spec_Su_def spec_Su2_def)
  finally have "real ?n * spec_SStot x y = b0 ^ 2 * spec_det x" .
  moreover have "0 < b0 ^ 2 * spec_det x" using b0 dpos by simp
  ultimately have "0 < real ?n * spec_SStot x y" by simp
  then have tot: "0 < spec_SStot x y" using n by (simp add: zero_less_mult_iff)
  show ?thesis using det tot res by (simp add: spec_fit_def)
qed

text \<open>
  In exact arithmetic, data on the curve with \<open>b0 \<noteq> 0\<close> and a determinant of at least
  \<open>10\<^sup>-\<^sup>2\<^sup>0\<close> give \<open>R\<^sup>2 = 1\<close>.
\<close>

lemma exact_perfect_fit:
  assumes "length x = length y" "\<forall>xi\<in>set x. 0 < xi"
    "\<forall>i<length x. y ! i = b0 / (x ! i) ^ 2 + a0" "b0 \<noteq> 0"
    "1 / 10 ^ 20 \<le> \<bar>spec_det x\<bar>"
  shows "fit_with Fin (map Fin x) (map Fin y) = Some (Fin 1)"
proof -
  have "0 \<notin> set x" using assms(2) by auto
  then show ?thesis
    using perfect_spec_fit [OF assms(5,3,4)] assms(1) by (simp add: fit_with_exact)
qed

text \<open>
  Two inputs that lie on the curve and do not give \<open>R\<^sup>2 = 1\<close> even in exact
  arithmetic: a constant \<open>y\<close> (\<open>b0 = 0\<close>) has \<open>SStot = 0\<close>, and the distinct values
  \<open>x = 10\<^sup>6\<close> and twice that have a determinant below \<open>10\<^sup>-\<^sup>2\<^sup>0\<close>.
\<close>

lemma exact_fit_constant_y: "fit_with Fin [Fin 1, Fin 2] [Fin 5, Fin 5] = Some (Fin 0)"
  by (simp add: fit_with_def Let_def nth_number_def fsub_def)

lemma exact_fit_large_x:
  "fit_with Fin [Fin (10 ^ 6), Fin (2 * 10 ^ 6)] [Fin 1, Fin (1 / 4)] = None"
  by (simp add: fit_with_def Let_def nth_number_def fsub_def)

text \<open>
  The fixed variant's \<^verbatim>\<open>transform\<close> never exceeds \<open>-ln (10\<^sup>-\<^sup>4)\<close>, and takes that value
  from \<open>0.9999\<close> on: the clamp keeps the argument of the logarithm at \<open>10\<^sup>-\<^sup>4\<close> or above,
  and the floor \<open>10\<^sup>-\<^sup>1\<^sup>0\<close> never binds.
\<close>

lemma transform_saturated: "0.9999 \<le> r2 \<Longrightarrow> transform r2 = - ln (1 / 10 ^ 4)"
  by (simp add: transform_def min_def max_def)

lemma transform_le: "transform r2 \<le> - ln (1 / 10 ^ 4)"
proof -
  have "(1 / 10 ^ 4 :: real) \<le> max (1 / 10 ^ 10) (1 - max 0 (min 0.9999 r2))"
    by (simp add: min_def max_def)
  then have "ln (1 / 10 ^ 4 :: real) \<le> ln (max (1 / 10 ^ 10) (1 - max 0 (min 0.9999 r2)))"
    by (subst ln_le_cancel_iff) simp_all
  then show ?thesis by (simp only: transform_def neg_le_iff_le)
qed

lemma ln_10_bounds: "2 < ln (10::real)" "ln (10::real) \<le> 9"
proof -
  have "exp (2::real) = exp 1 ^ 2" by (simp add: exp_of_nat_mult [symmetric])
  also have "\<dots> \<le> 3 ^ 2" by (intro power_mono exp_le) simp
  also have "\<dots> < (10::real)" by simp
  finally have "ln (exp (2::real)) < ln 10" by (subst ln_less_cancel_iff) simp_all
  then show "2 < ln (10::real)" by simp
  have "ln (10::real) \<le> 10 - 1" by (rule ln_le_minus_one) simp
  then show "ln (10::real) \<le> 9" by simp
qed


lemma round_transform_saturated:
  assumes "0.9999 \<le> r2"
  shows "round_result (Number (transform_number (Fin r2)))
    = Number (Fin (toFixed6 (- ln (1 / 10 ^ 4))))"
proof -
  have "ln (10 ^ 4 :: real) = 4 * ln 10" using ln_realpow [of "10::real" 4] by simp
  then have "\<bar>- ln (1 / 10 ^ 4 :: real)\<bar> \<le> 36"
    using ln_10_bounds by (simp add: ln_div)
  also have "(36::real) < 2 ^ 1024" by simp
  finally have "to_number (- ln (1 / 10 ^ 4)) = Fin (- ln (1 / 10 ^ 4))"
    by (simp only: to_number_def if_True)
  then show ?thesis by (simp add: transform_saturated [OF assms])
qed

lemma fixed_handler_saturated:
  assumes "http_method req \<noteq> ascii ''OPTIONS''" "json_body req = Some b"
    "rows b = Some (JArr rs)" "filter_rows pf rs [] [] = Inr (xs, ys)" "2 \<le> length xs"
    "fit_fixed xs ys = Some (Fin r2)" "0.9999 \<le> r2"
  shows "onRequestPost_fixed pf req
    = Inr \<lparr>status = 200, payload = MainResult (Number (Fin (toFixed6 (- ln (1 / 10 ^ 4)))))\<rparr>"
  using assms(1-6)
  by (simp add: onRequestPost_fixed_def round_transform_saturated [OF assms(7)]
      del: round_result.simps transform_number.simps)

text \<open>
  C2 (amended). For rows with positive \<open>x\<close>, \<open>y[i] = b0/x[i]\<^sup>2 + a0\<close> with \<open>b0 \<noteq> 0\<close>,
  and a determinant \<open>n Su2 - Su\<^sup>2\<close> of at least \<open>10\<^sup>-\<^sup>2\<^sup>0\<close>, the formulas of \<^verbatim>\<open>fit\<close>
  give \<open>R\<^sup>2 = 1\<close> in exact arithmetic. Whenever the \<open>R\<^sup>2\<close> that the fixed handler
  computes is at least \<open>0.9999\<close>, and so when it is \<open>1\<close>, the handler answers 200 with
  \<open>-ln (10\<^sup>-\<^sup>4)\<close> rounded to six decimals, which is \<open>9.21034\<close>: the clamp at \<open>0.9999\<close>
  keeps the argument of the logarithm at \<open>10\<^sup>-\<^sup>4\<close>, above the floor \<open>10\<^sup>-\<^sup>1\<^sup>0\<close>, and no
  \<open>R\<^sup>2\<close> gives a larger value. In binary64 the computed \<open>R\<^sup>2\<close> of such rows need not be
  near \<open>1\<close>: for \<open>x = 1, 1 + 2\<^sup>-\<^sup>2\<^sup>6\<close> and \<open>y = 1, 2\<close>, where exact arithmetic gives
  \<open>1\<close>, the code computes \<open>-2.9999997...\<close>.
\<close>

theorem perfect_fit_amended:
  "(length x = length y \<and> 2 \<le> length x \<and> (\<forall>xi\<in>set x. 0 < xi)
      \<and> (\<forall>i<length x. y ! i = b0 / (x ! i) ^ 2 + a0) \<and> b0 \<noteq> 0
      \<and> 1 / 10 ^ 20 \<le> \<bar>spec_det x\<bar>
    \<longrightarrow> fit_with Fin (map Fin x) (map Fin y) = Some (Fin 1))
  \<and> (http_method req \<noteq> ascii ''OPTIONS'' \<and> json_body req = Some b
      \<and> rows b = Some (JArr rs) \<and> filter_rows pf rs [] [] = Inr (xs, ys) \<and> 2 \<le> length xs
      \<and> fit_fixed xs ys = Some (Fin r2) \<and> 0.9999 \<le> r2
    \<longrightarrow> onRequestPost_fixed pf req
      = Inr \<lparr>status = 200, payload = MainResult (Number (Fin (toFixed6 (- ln (1 / 10 ^ 4)))))\<rparr>)
  \<and> toFixed6 (- ln (1 / 10 ^ 4)) = 9.21034
  \<and> transform r \<le> - ln (1 / 10 ^ 4)
  \<and> fit_with Fin [Fin 1, Fin (1 + 1 / 2 ^ 26)] [Fin 1, Fin 2] = Some (Fin 1)
  \<and> fit_fixed [Fin 1, Fin (1 + 1 / 2 ^ 26)] [Fin 1, Fin 2]
      = Some (Fin (- (1688849742823427 / 562949953421312)))"
proof (intro conjI impI)
  assume "length x = length y \<and> 2 \<le> length x \<and> (\<forall>xi\<in>set x. 0 < xi)
      \<and> (\<forall>i<length x. y ! i = b0 / (x ! i) ^ 2 + a0) \<and> b0 \<noteq> 0
      \<and> 1 / 10 ^ 20 \<le> \<bar>spec_det x\<bar>"
  then show "fit_with Fin (map Fin x) (map Fin y) = Some (Fin 1)"
    by (intro exact_perfect_fit [where ?b0.0 = b0 and ?a0.0 = a0]) simp_all
next
  assume "http_method req \<noteq> ascii ''OPTIONS'' \<and> json_body req = Some b
      \<and> rows b = Some (JArr rs) \<and> filter_rows pf rs [] [] = Inr (xs, ys) \<and> 2 \<le> length xs
      \<and> fit_fixed xs ys = Some (Fin r2) \<and> 0.9999 \<le> r2"
  then show "onRequestPost_fixed pf req
      = Inr \<lparr>status = 200, payload = MainResult (Number (Fin (toFixed6 (- ln (1 / 10 ^ 4)))))\<rparr>"
    by (intro fixed_handler_saturated [where b = b and rs = rs and xs = xs and ys = ys and ?r2.0 = r2])
      simp_all
next
  show "toFixed6 (- ln (1 / 10 ^ 4)) = 9.21034" by (rule toFixed6_neg_log)
  show "transform r \<le> - ln (1 / 10 ^ 4)" by (rule transform_le)
  show "fit_with Fin [Fin 1, Fin (1 + 1 / 2 ^ 26)] [Fin 1, Fin 2] = Some (Fin 1)"
    by (rule exact_fit_close)
  show "fit_fixed [Fin 1, Fin (1 + 1 / 2 ^ 26)] [Fin 1, Fin 2]
      = Some (Fin (- (1688849742823427 / 562949953421312)))"
    using fit_close by (simp add: fit_fixed_fit)
qed

theorem perfect_fit_amended_witness:
  "fit_with Fin (map Fin [1, 2, 4]) (map Fin [5, 7 / 2, 25 / 8]) = Some (Fin 1)
    \<and> onRequestPost_fixed (\<lambda>s. NaN)
        \<lparr>http_method = ascii ''POST'',
         json_body = Some \<lparr>rows = Some (JArr [JArr [JNum 1, JNum 1], JArr [JNum 2, JNum (1 / 4)]]),
                           transformKey = None\<rparr>\<rparr>
      = Inr \<lparr>status = 200, payload = MainResult (Number (Fin (toFixed6 (- ln (1 / 10 ^ 4)))))\<rparr>
    \<and> toFixed6 (- ln (1 / 10 ^ 4)) = 9.21034"
proof -
  let ?x = "[1, 2, 4 :: real]" and ?y = "[5, 7 / 2, 25 / 8 :: real]"
  let ?rs = "[JArr [JNum 1, JNum 1], JArr [JNum 2, JNum (1 / 4)]]"
  let ?b = "\<lparr>rows = Some (JArr ?rs), transformKey = None\<rparr>"
  let ?req = "\<lparr>http_method = ascii ''POST'', json_body = Some ?b\<rparr>"
  have l: "length ?x = length ?y" "2 \<le> length ?x" "\<forall>xi\<in>set ?x. 0 < xi" by simp_all
  have d: "\<forall>i<length ?x. ?y ! i = 2 / (?x ! i) ^ 2 + 3"
    by (auto simp: less_Suc_eq eval_nat_numeral)
  have b: "(2::real) \<noteq> 0" by simp
  have det: "1 / 10 ^ 20 \<le> \<bar>spec_det ?x\<bar>"
    by (simp add: spec_det_def spec_Su_def spec_Su2_def spec_u_def lessThan_Suc eval_nat_numeral)
  have m: "http_method ?req \<noteq> ascii ''OPTIONS''" by (simp add: ascii_def)
  have jb: "json_body ?req = Some ?b" "rows ?b = Some (JArr ?rs)" by simp_all
  have f: "filter_rows (\<lambda>s. NaN) ?rs [] [] = Inr ([Fin 1, Fin 2], [Fin 1, Fin (1 / 4)])"
    by (rule filter_rows_perfect)
  have n: "2 \<le> length [Fin 1, Fin 2]" by simp
  have r: "fit_fixed [Fin 1, Fin 2] [Fin 1, Fin (1 / 4)] = Some (Fin 1)"
    using fit_perfect by (simp add: fit_fixed_fit)
  have c: "(0.9999 :: real) \<le> 1" by simp
  show ?thesis
    using perfect_fit_amended [of ?x ?y 2 3 ?req ?b ?rs "\<lambda>s. NaN" "[Fin 1, Fin 2]"
        "[Fin 1, Fin (1 / 4)]" 1 0]
      l d b det m jb f n r c
    by blast
qed

lemma toFixed6_ln_differ: "toFixed6 (- ln (1 / 10 ^ 4)) \<noteq> toFixed6 (- ln (1 / 10 ^ 10))"
proof
  assume e: "toFixed6 (- ln (1 / 10 ^ 4)) = toFixed6 (- ln (1 / 10 ^ 10))"
  have a: "- ln (1 / 10 ^ 4 :: real) = 4 * ln 10"
    using ln_realpow [of "10::real" 4] by (simp add: ln_div)
  have b: "- ln (1 / 10 ^ 10 :: real) = 10 * ln 10"
    using ln_realpow [of "10::real" 10] by (simp add: ln_div)
  have "\<bar>toFixed6 (4 * ln 10) - 4 * ln 10\<bar> \<le> 1 / (2 * 10 ^ 6)"
    and "\<bar>toFixed6 (10 * ln 10) - 10 * ln 10\<bar> \<le> 1 / (2 * 10 ^ 6)"
    by (rule toFixed6_close)+
  moreover have "toFixed6 (4 * ln 10) = toFixed6 (10 * ln 10)" using e by (simp only: a b)
  ultimately have "6 * ln (10::real) \<le> 1 / 10 ^ 6" by (simp only: abs_le_iff) linarith
  then show False using ln_10_bounds(1) by simp
qed

text \<open>
  C2 (as stated: the fixed handler returns \<open>-ln (10\<^sup>-\<^sup>1\<^sup>0)\<close> rounded to six
  decimals). For \<open>x = 1, 2\<close> and \<open>y = 1/x\<^sup>2\<close> (\<open>a0 = 0\<close>, \<open>b0 = 1\<close>) the fit
  returns \<open>1\<close> and the handler returns the rounding of \<open>-ln (10\<^sup>-\<^sup>4)\<close>, which is
  \<open>9.21034\<close> and not the rounding of \<open>-ln (10\<^sup>-\<^sup>1\<^sup>0)\<close>.
\<close>

theorem perfect_fit_counterexample:
  "fit_fixed [Fin 1, Fin 2] [Fin (1 / 1 ^ 2 + 0), Fin (1 / 2 ^ 2 + 0)] = Some (Fin 1)
    \<and> onRequestPost_fixed (\<lambda>s. NaN)
        \<lparr>http_method = ascii ''POST'',
         json_body = Some \<lparr>rows = Some (JArr [JArr [JNum 1, JNum (1 / 1 ^ 2 + 0)],
                                                JArr [JNum 2, JNum (1 / 2 ^ 2 + 0)]]),
                           transformKey = None\<rparr>\<rparr>
      = Inr \<lparr>status = 200, payload = MainResult (Number (Fin (toFixed6 (- ln (1 / 10 ^ 4)))))\<rparr>
    \<and> toFixed6 (- ln (1 / 10 ^ 4)) = 9.21034
    \<and> toFixed6 (- ln (1 / 10 ^ 4)) \<noteq> toFixed6 (- ln (1 / 10 ^ 10))"
proof -
  have f: "fit_fixed [Fin 1, Fin 2] [Fin 1, Fin (1 / 4)] = Some (Fin 1)"
    using fit_perfect by (simp add: fit_fixed_fit)
  have m: "ascii ''POST'' \<noteq> ascii ''OPTIONS''" by (simp add: ascii_def)
  have c: "(0.9999 :: real) \<le> 1" by simp
  have "onRequestPost_fixed (\<lambda>s. NaN)
        \<lparr>http_method = ascii ''POST'',
         json_body = Some \<lparr>rows = Some (JArr [JArr [JNum 1, JNum 1],
                                                JArr [JNum 2, JNum (1 / 4)]]),
                           transformKey = None\<rparr>\<rparr>
      = Inr \<lparr>status = 200, payload = MainResult (Number (Fin (toFixed6 (- ln (1 / 10 ^ 4)))))\<rparr>"
    by (simp add: onRequestPost_fixed_def filter_rows_perfect f m round_transform_saturated [OF c]
        del: filter_rows.simps round_result.simps transform_number.simps)
  with f toFixed6_ln_differ toFixed6_neg_log show ?thesis by simp
qed

section \<open>The transforms: baselines and the two copies\<close>

text \<open>
  C7. At \<open>R\<^sup>2 = 0\<close> the transform \<^verbatim>\<open>1/(1-R^2)\<close> returns \<open>1\<close>,
  \<^verbatim>\<open>exp(1/(1-R^2))\<close> returns \<open>e\<close>, which the handler rounds to \<open>2.718282\<close>,
  \<^verbatim>\<open>-log(1-R^2)\<close> returns \<open>0\<close> (as a table entry and as the fixed variant's
  \<^verbatim>\<open>transform\<close>), and the square returns \<open>0\<close>.
\<close>

theorem transforms_at_zero:
  "TRANSFORMS ReciprocalComplement 0 = 1
    \<and> TRANSFORMS ExpReciprocalComplement 0 = exp 1
    \<and> round_result (Number (TRANSFORMS_number ExpReciprocalComplement (Fin 0)))
        = Number (Fin 2.718282)
    \<and> TRANSFORMS NegLogComplement 0 = 0
    \<and> transform 0 = 0
    \<and> TRANSFORMS Square 0 = 0
    \<and> TRANSFORMS_number ReciprocalComplement (Fin 0) = Fin 1
    \<and> TRANSFORMS_number ExpReciprocalComplement (Fin 0) = Fin (exp 1)
    \<and> TRANSFORMS_number NegLogComplement (Fin 0) = Fin 0
    \<and> transform_number (Fin 0) = Fin 0
    \<and> TRANSFORMS_number Square (Fin 0) = Fin 0"
proof -
  have "\<bar>exp (1::real)\<bar> < 3" using exp_one_bounds(2) by simp
  also have "(3::real) < 2 ^ 1024" by simp
  finally have e: "to_number (exp 1) = Fin (exp 1)" by (simp only: to_number_def if_True)
  then have "round_result (Number (TRANSFORMS_number ExpReciprocalComplement (Fin 0)))
        = Number (Fin 2.718282)"
    by (simp add: toFixed6_exp_one)
  then show ?thesis using e by (simp add: transform_def to_number_def)
qed

text \<open>
  C9. The two copies of \<^verbatim>\<open>fit\<close> return the same result on every pair of lists, and
  the fixed variant's \<^verbatim>\<open>transform\<close> is the table's entry \<^verbatim>\<open>-log(1-R^2)\<close> at every
  real, and at the infinities and \<open>NaN\<close>.
\<close>

theorem variants_agree:
  "fit_fixed x y = fit x y \<and> transform r2 = TRANSFORMS NegLogComplement r2
    \<and> transform_number n = TRANSFORMS_number NegLogComplement n"
proof -
  have "transform_number n = TRANSFORMS_number NegLogComplement n"
    by (cases n) (simp_all add: transform_def)
  then show ?thesis
    by (simp add: fit_def fit_fixed_def fit_with_def fit_fixed_with_def transform_def)
qed

end
